theory Spec2Isabelle
  imports Complex_Main "HOL-Library.Char_ord" "HOL-Library.List_Lexorder"
    "HOL-Library.Product_Lexorder" "HOL-Library.AList"
begin

section \<open>Cost tables of message-ix-models as lists of rows\<close>

text \<open>
  The cost tools work on pandas data frames. A data frame is modelled as the list of its
  rows, in row order; a row is a record with one field per column the code reads.

  A float cell is a \<open>real option\<close>: \<open>Some x\<close> is a finite number, taken as an exact
  real, and \<open>None\<close> is numpy's NaN (a missing cell). A string cell that pandas may leave
  empty (NaN) is a \<open>string option\<close>.
\<close>

type_synonym fl = "real option"

text \<open>
  Arithmetic on float cells propagates NaN. A division by zero, which numpy answers with
  NaN (for 0/0) or an infinity, is not a finite number either and is \<open>None\<close> here.
\<close>

fun fmul :: "fl \<Rightarrow> fl \<Rightarrow> fl" where
  "fmul (Some x) (Some y) = Some (x * y)"
| "fmul _ _ = None"

fun fadd :: "fl \<Rightarrow> fl \<Rightarrow> fl" where
  "fadd (Some x) (Some y) = Some (x + y)"
| "fadd _ _ = None"

fun fsub :: "fl \<Rightarrow> fl \<Rightarrow> fl" where
  "fsub (Some x) (Some y) = Some (x - y)"
| "fsub _ _ = None"

fun fdiv :: "fl \<Rightarrow> fl \<Rightarrow> fl" where
  "fdiv (Some x) (Some y) = (if y = 0 then None else Some (x / y))"
| "fdiv _ _ = None"

text \<open>A cell that holds a number other than zero.\<close>

definition finite_nonzero :: "fl \<Rightarrow> bool" where
  "finite_nonzero v = (case v of None \<Rightarrow> False | Some c \<Rightarrow> c \<noteq> 0)"

text \<open>\<open>Series.isnull()\<close> and \<open>np.where(c.isnull(), a, b)\<close> on one cell.\<close>

definition isnull :: "'a option \<Rightarrow> bool" where
  "isnull c = (c = None)"

definition where_isnull :: "'a option \<Rightarrow> 'b \<Rightarrow> 'b \<Rightarrow> 'b" where
  "where_isnull c a b = (if isnull c then a else b)"

text \<open>\<open>Series.unique()\<close>: the distinct values in order of first appearance.\<close>

definition unique :: "'a list \<Rightarrow> 'a list" where
  "unique xs = rev (remdups (rev xs))"

text \<open>
  \<open>DataFrame.merge\<close> on equal keys. The inner merge pairs every left row with every
  right row of the same key; the left merge keeps a left row without a partner, paired
  with nothing (all its right columns are NaN).
\<close>

definition merge_inner :: "('a \<Rightarrow> 'k) \<Rightarrow> ('b \<Rightarrow> 'k) \<Rightarrow> 'a list \<Rightarrow> 'b list \<Rightarrow> ('a \<times> 'b) list" where
  "merge_inner ka kb xs ys = concat (map (\<lambda>x. map (\<lambda>y. (x, y)) (filter (\<lambda>y. kb y = ka x) ys)) xs)"

definition merge_left :: "('a \<Rightarrow> 'k) \<Rightarrow> ('b \<Rightarrow> 'k) \<Rightarrow> 'a list \<Rightarrow> 'b list \<Rightarrow> ('a \<times> 'b option) list" where
  "merge_left ka kb xs ys =
     concat (map (\<lambda>x. case filter (\<lambda>y. kb y = ka x) ys of
                         [] \<Rightarrow> [(x, None)]
                       | ms \<Rightarrow> map (\<lambda>y. (x, Some y)) ms) xs)"

text \<open>\<open>str.upper()\<close>, on the ASCII letters the region codes are written in.\<close>

definition upper_char :: "char \<Rightarrow> char" where
  "upper_char c =
     (case map_of (zip ''abcdefghijklmnopqrstuvwxyz'' ''ABCDEFGHIJKLMNOPQRSTUVWXYZ'') c of
        None \<Rightarrow> c
      | Some u \<Rightarrow> u)"

definition upper :: "string \<Rightarrow> string" where
  "upper s = map upper_char s"

text \<open>The exceptions the modelled functions raise.\<close>

datatype error =
    ValueError string
  | KeyError
  | IndexError
  | AssertionError
  | NotImplementedError
  | UnboundLocalError
  | AttributeError
  | FileNotFoundError

text \<open>
  What the functions print, line by line:
  \<^item> \<open>InvalidRegion\<close>: \<^verbatim>\<open>Please select a valid region: R11, R12, or R20\<close>;
  \<^item> \<open>InvalidReferenceRegion regions\<close>: \<^verbatim>\<open>Please select a valid reference region: \<close>
    and the regions of the GDP table;
  \<^item> \<open>BaseYearNotFound y b\<close>: \<^verbatim>\<open>Base year y not found in GDP data. Using b for GDP
    data instead.\<close>
\<close>

datatype message =
    InvalidRegion
  | InvalidReferenceRegion "string list"
  | BaseYearNotFound int int

section \<open>The WEO reader: imputation of missing cells\<close>

text \<open>
  \<open>get_weo_data\<close> (regional_differentiation.py) concatenates the sheets it reads into
  \<open>all_cost_df\<close>, one row per cost type, technology, WEO region and year. A cell that
  was \<open>n.a.\<close> in the sheet is NaN. The sheets are not part of the sources, so
  \<open>all_cost_df\<close> is the argument of the model, which starts where the table is
  complete.

  What the package provides from outside these sources (its data files, and helper
  functions of other modules) is collected in the record \<open>package\<close> below; every
  modelled function that reads a file takes it as its first argument.
\<close>

record weo_row =
  cost_type :: string
  weo_technology :: string
  weo_region :: string
  weo_year :: string
  weo_value :: fl

text \<open>The key columns of the table: one row per cost type, technology, region and year.\<close>

definition weo_key :: "'a weo_row_scheme \<Rightarrow> string \<times> string \<times> string \<times> string" where
  "weo_key r = (cost_type r, weo_technology r, weo_region r, weo_year r)"

text \<open>
  The median of a group as pandas computes it: NaN cells are skipped, the middle value of
  the sorted rest is taken (the mean of the two middle values when their number is even),
  and a group with no value at all has the median NaN.
\<close>

definition dropna :: "fl list \<Rightarrow> real list" where
  "dropna cs = concat (map (\<lambda>c. case c of None \<Rightarrow> [] | Some v \<Rightarrow> [v]) cs)"

definition middle_value :: "real list \<Rightarrow> fl" where
  "middle_value vs =
     (let s = sort vs; n = length s in
      if n = 0 then None
      else if odd n then Some (s ! (n div 2))
      else Some ((s ! (n div 2 - 1) + s ! (n div 2)) / 2))"

definition median :: "fl list \<Rightarrow> fl" where
  "median cs = middle_value (dropna cs)"

definition weo_group :: "weo_row \<Rightarrow> string \<times> string" where
  "weo_group r = (weo_technology r, cost_type r)"

text \<open>
  \<open>df_median\<close>: \<open>groupby(["weo_technology", "cost_type"]).agg(median_value=("value",
  "median")).reset_index()\<close>, one row per group, the groups in sorted order.
\<close>

definition df_median :: "weo_row list \<Rightarrow> ((string \<times> string) \<times> fl) list" where
  "df_median all_cost_df =
     map (\<lambda>k. (k, median (map weo_value (filter (\<lambda>r. weo_group r = k) all_cost_df))))
       (sort (remdups (map weo_group all_cost_df)))"

text \<open>
  \<open>df_merged\<close>: the left merge of \<open>all_cost_df\<close> with \<open>df_median\<close> on the group, then
  \<open>adj_value = np.where(value.isnull(), median_value, value)\<close>, which replaces
  \<open>value\<close>.
\<close>

definition get_weo_data :: "weo_row list \<Rightarrow> weo_row list" where
  "get_weo_data all_cost_df =
     map (\<lambda>(r, m). r\<lparr>weo_value :=
                 where_isnull (weo_value r)
                   (case m of None \<Rightarrow> None | Some (k, median_value) \<Rightarrow> median_value)
                   (weo_value r)\<rparr>)
       (merge_left weo_group fst all_cost_df (df_median all_cost_df))"

text \<open>The values that are present in one group of \<open>all_cost_df\<close>.\<close>

definition present_values :: "weo_row list \<Rightarrow> string \<times> string \<Rightarrow> real list" where
  "present_values df k =
     concat (map (\<lambda>r. case weo_value r of None \<Rightarrow> [] | Some v \<Rightarrow> [v])
               (filter (\<lambda>r. weo_group r = k) df))"

section \<open>Regional differentiation\<close>

text \<open>
  The fields of \<open>Config\<close> that the functions below read. \<open>ref_region\<close> is optional
  in the source (\<open>None\<close> until it is set).
\<close>

record config =
  cfg_node :: string
  cfg_ref_region :: "string option"

text \<open>A row of the Intratec index file: \<open>node\<close> and \<open>value\<close>.\<close>

record intratec_row =
  in_region :: string
  in_index :: fl

text \<open>
  A row of the technology mapping that \<open>adjust_technology_mapping\<close> returns. Its CSV
  files are not part of the sources; the mapping is an argument of
  \<open>apply_regional_differentiation\<close> below.
\<close>

record map_row =
  message_technology :: string
  reg_diff_source :: "string option"
  reg_diff_technology :: "string option"
  base_year_reference_region_cost :: fl
  fix_ratio :: fl

text \<open>
  A row of the SSP file as \<open>process_raw_ssp_data\<close> (gdp.py) has it before it drops
  columns and merges: the file read, restricted to the variables \<open>Population\<close> and
  \<open>GDP|PPP\<close>, melted to one row per year, the country names resolved to alpha-3 codes.
\<close>

record ssp_row =
  ssp_scenario_version :: string
  ssp_country_name_adj :: string
  ssp_country_alpha_3 :: string
  ssp_variable :: string
  ssp_year :: int
  ssp_value :: fl

text \<open>
  The package, as far as the cost tools read it:
  \<^item> \<open>node_codelist regions\<close>: the children of \<open>World\<close> in the codelist
    \<open>node/regions\<close>, each with its id and the text of its \<open>iea-weo-region\<close>
    annotation;
  \<^item> \<open>all_cost_df\<close>: the WEO workbook as \<open>get_weo_data\<close> has read it, before the
    imputation;
  \<^item> \<open>intratec_indices\<close>: the Intratec index file;
  \<^item> \<open>adapt_R11_R12\<close>: the function of that name in \<open>message_ix_models.util.node\<close>;
  \<^item> \<open>node_file name\<close>: the YAML file \<open>node/name\<close> of the package data, a code with
    the list of its children for every entry, or \<open>None\<close> when there is no such file;
  \<^item> \<open>ssp_data\<close>: the rows of the SSP file.
\<close>

record package =
  node_codelist :: "string \<Rightarrow> (string \<times> string) list"
  all_cost_df :: "weo_row list"
  intratec_indices :: "intratec_row list"
  adapt_R11_R12 :: "intratec_row list \<Rightarrow> intratec_row list"
  node_file :: "string \<Rightarrow> (string \<times> string list) list option"
  ssp_data :: "ssp_row list"

text \<open>
  \<open>get_weo_region_map\<close>: the dict comprehension \<open>{n.id: ... for n in nodes}\<close>. A dict
  is the list of its items in insertion order; a key that comes again keeps its place and
  takes the new value.
\<close>

definition get_weo_region_map :: "package \<Rightarrow> string \<Rightarrow> (string \<times> string) list" where
  "get_weo_region_map pk regions =
     foldl (\<lambda>d (i, t). AList.update i t d) [] (node_codelist pk regions)"

text \<open>
  A row of \<open>df_sel_weo\<close>: a WEO row with the MESSAGEix \<open>region\<close> it is mapped to
  (\<open>weo_value\<close> is the column renamed to \<open>weo_cost\<close>).
\<close>

record weo_sel_row = weo_row +
  sel_region :: string

text \<open>
  A row of cost ratios from one source: the technology of the source, the region, the
  cost in the reference region and \<open>reg_cost_ratio\<close>. The WEO table has the ratio of
  fixed to investment cost as well.
\<close>

record ratio_row =
  source_technology :: string
  source_region :: string
  ref_region_cost :: fl
  source_cost_ratio :: fl

record weo_ratio_row = ratio_row +
  weo_fix_ratio :: fl

text \<open>
  \<open>l_sel_weo\<close>: for every item of the region map, the rows of the year 2021 of its WEO
  region, with the MESSAGEix node as \<open>region\<close>.
\<close>

definition df_sel_weo_of :: "weo_row list \<Rightarrow> (string \<times> string) list \<Rightarrow> weo_sel_row list list" where
  "df_sel_weo_of df_weo region_map =
     map (\<lambda>(message_node, weo_reg).
            map (\<lambda>r. \<lparr>cost_type = cost_type r, weo_technology = weo_technology r,
                       weo_region = weo_region r, weo_year = weo_year r,
                       weo_value = weo_value r, sel_region = message_node\<rparr>)
              (filter (\<lambda>r. weo_year r = ''2021'' \<and> weo_region r = weo_reg) df_weo))
       region_map"

text \<open>\<open>df_reg_ratios\<close> of \<open>get_weo_regional_differentiation\<close>.\<close>

definition weo_reg_ratios :: "weo_sel_row list \<Rightarrow> string \<Rightarrow> ratio_row list" where
  "weo_reg_ratios df_sel_weo ref_region =
     map (\<lambda>(a, b). \<lparr>source_technology = weo_technology b, source_region = sel_region b,
                    ref_region_cost = weo_value a,
                    source_cost_ratio = fdiv (weo_value b) (weo_value a)\<rparr>)
       (merge_inner (\<lambda>r. (weo_technology r, weo_year r)) (\<lambda>r. (weo_technology r, weo_year r))
          (filter (\<lambda>r. sel_region r = ref_region \<and> cost_type r = ''inv_cost'') df_sel_weo)
          (filter (\<lambda>r. cost_type r = ''inv_cost'') df_sel_weo))"

text \<open>\<open>df_fom_inv\<close>: technology, region and \<open>weo_fix_ratio\<close>.\<close>

definition weo_fom_inv :: "weo_sel_row list \<Rightarrow> (string \<times> string \<times> fl) list" where
  "weo_fom_inv df_sel_weo =
     map (\<lambda>(i, f). (weo_technology i, sel_region i, fdiv (weo_value f) (weo_value i)))
       (merge_inner (\<lambda>r. (weo_technology r, weo_region r, sel_region r))
          (\<lambda>r. (weo_technology r, weo_region r, sel_region r))
          (filter (\<lambda>r. cost_type r = ''inv_cost'' \<and> weo_year r = ''2021'') df_sel_weo)
          (filter (\<lambda>r. cost_type r = ''fix_cost'' \<and> weo_year r = ''2021'') df_sel_weo))"

definition l_sel_weo_of :: "package \<Rightarrow> config \<Rightarrow> weo_sel_row list list" where
  "l_sel_weo_of pk cfg =
     df_sel_weo_of (get_weo_data (all_cost_df pk)) (get_weo_region_map pk (cfg_node cfg))"

definition get_weo_regional_differentiation :: "package \<Rightarrow> config \<Rightarrow> error + weo_ratio_row list" where
  "get_weo_regional_differentiation pk cfg =
     (let l_sel_weo = l_sel_weo_of pk cfg
      in if l_sel_weo = [] then Inl (ValueError ''No objects to concatenate'')
         else
           let df_sel_weo = concat l_sel_weo in
           case cfg_ref_region cfg of
             None \<Rightarrow> Inl AssertionError
           | Some r \<Rightarrow>
               let ref_region = upper r in
               if ref_region \<notin> set (unique (map sel_region df_sel_weo))
               then Inl (ValueError ''Reference region not found in WEO data'')
               else
                 Inr (map (\<lambda>(a, (t, g, x)).
                             \<lparr>source_technology = source_technology a,
                              source_region = source_region a,
                              ref_region_cost = ref_region_cost a,
                              source_cost_ratio = source_cost_ratio a,
                              weo_fix_ratio = x\<rparr>)
                        (merge_inner (\<lambda>a. (source_technology a, source_region a))
                           (\<lambda>(t, g, x). (t, g))
                           (weo_reg_ratios df_sel_weo ref_region)
                           (weo_fom_inv df_sel_weo))))"

text \<open>
  \<open>get_intratec_regional_differentiation\<close>. \<open>df_intratec_map\<close> is the index table
  with its nodes as regions (every row has \<open>intratec_tech = "all"\<close>). With a node list
  that is none of R11, R12 and R20 no branch assigns it (\<open>None\<close> below), and its first
  use raises \<open>UnboundLocalError\<close>.
\<close>

definition df_intratec_map_of :: "package \<Rightarrow> string \<Rightarrow> error + intratec_row list option" where
  "df_intratec_map_of pk nd =
     (let df_intratec = intratec_indices pk in
      if upper nd = ''R11'' then Inr (Some df_intratec)
      else if upper nd = ''R12'' then Inr (Some (adapt_R11_R12 pk df_intratec))
      else if upper nd = ''R20'' then Inl NotImplementedError
      else Inr None)"

definition get_intratec_regional_differentiation ::
    "package \<Rightarrow> string \<Rightarrow> string \<Rightarrow> error + ratio_row list" where
  "get_intratec_regional_differentiation pk nd ref_region_arg =
     (case df_intratec_map_of pk nd of
        Inl e \<Rightarrow> Inl e
      | Inr df_intratec_map \<Rightarrow>
          let ref_region = upper ref_region_arg in
          (case df_intratec_map of
             None \<Rightarrow> Inl UnboundLocalError
           | Some m \<Rightarrow>
               if ref_region \<notin> set (unique (map in_region m))
               then Inl (ValueError ''Reference region not found in WEO data'')
               else
                 Inr (map (\<lambda>(a, b). \<lparr>source_technology = ''all'', source_region = in_region b,
                                        ref_region_cost = in_index a,
                                        source_cost_ratio = fdiv (in_index b) (in_index a)\<rparr>)
                        (merge_inner (\<lambda>r. ''all'') (\<lambda>r. ''all'')
                           (filter (\<lambda>r. in_region r = ref_region) m) m))))"

text \<open>
  The rows of \<open>apply_regional_differentiation\<close>: a mapping row with its \<open>region\<close>
  and \<open>reg_cost_ratio\<close> (both NaN where a left merge found no partner), and in the
  result \<open>reg_cost_base_year\<close>.
\<close>

record filt_row = map_row +
  region :: "string option"
  reg_cost_ratio :: fl

record diff_row = filt_row +
  reg_cost_base_year :: fl

definition filt_weo_of :: "map_row list \<Rightarrow> weo_ratio_row list \<Rightarrow> filt_row list" where
  "filt_weo_of df_map df_weo =
     map (\<lambda>(m, w).
            \<lparr>message_technology = message_technology m,
             reg_diff_source = reg_diff_source m,
             reg_diff_technology = reg_diff_technology m,
             base_year_reference_region_cost =
               where_isnull (base_year_reference_region_cost m)
                 (case w of None \<Rightarrow> None | Some x \<Rightarrow> ref_region_cost x)
                 (base_year_reference_region_cost m),
             fix_ratio =
               where_isnull (fix_ratio m)
                 (case w of None \<Rightarrow> None | Some x \<Rightarrow> weo_fix_ratio x)
                 (fix_ratio m),
             region = map_option source_region w,
             reg_cost_ratio = (case w of None \<Rightarrow> None | Some x \<Rightarrow> source_cost_ratio x)\<rparr>)
       (merge_left reg_diff_technology (\<lambda>x. Some (source_technology x))
          (filter (\<lambda>m. reg_diff_source m = Some ''energy'' \<or> reg_diff_source m = Some ''weo'')
             df_map)
          df_weo)"

definition filt_intratec_of :: "map_row list \<Rightarrow> ratio_row list \<Rightarrow> filt_row list" where
  "filt_intratec_of df_map df_intratec =
     map (\<lambda>(m, w).
            \<lparr>message_technology = message_technology m,
             reg_diff_source = reg_diff_source m,
             reg_diff_technology = reg_diff_technology m,
             base_year_reference_region_cost =
               where_isnull (base_year_reference_region_cost m)
                 (case w of None \<Rightarrow> None | Some x \<Rightarrow> ref_region_cost x)
                 (base_year_reference_region_cost m),
             fix_ratio = where_isnull (fix_ratio m) (Some 0) (fix_ratio m),
             region = map_option source_region w,
             reg_cost_ratio = (case w of None \<Rightarrow> None | Some x \<Rightarrow> source_cost_ratio x)\<rparr>)
       (merge_left reg_diff_technology (\<lambda>x. Some (source_technology x))
          (filter (\<lambda>m. reg_diff_source m = Some ''intratec'') df_map)
          df_intratec)"

text \<open>
  \<open>un_reg\<close>: one row for every value of \<open>filt_intratec.region.unique()\<close>, with
  \<open>reg_cost_ratio = 1\<close> (the column \<open>key\<close> is the constant \<open>"z"\<close>, so that the merge
  on it pairs every mapping row with every row of \<open>un_reg\<close>).
\<close>

definition un_reg_of :: "filt_row list \<Rightarrow> (string option \<times> fl) list" where
  "un_reg_of filt_intratec = map (\<lambda>g. (g, Some 1)) (unique (map region filt_intratec))"

definition filt_none_of :: "map_row list \<Rightarrow> (string option \<times> fl) list \<Rightarrow> filt_row list" where
  "filt_none_of df_map un_reg =
     map (\<lambda>(m, u).
            \<lparr>message_technology = message_technology m,
             reg_diff_source = reg_diff_source m,
             reg_diff_technology = reg_diff_technology m,
             base_year_reference_region_cost = base_year_reference_region_cost m,
             fix_ratio = where_isnull (fix_ratio m) (Some 0) (fix_ratio m),
             region = (case u of None \<Rightarrow> None | Some (g, c) \<Rightarrow> g),
             reg_cost_ratio = (case u of None \<Rightarrow> None | Some (g, c) \<Rightarrow> c)\<rparr>)
       (merge_left (\<lambda>m. ''z'') (\<lambda>u. ''z'')
          (filter (\<lambda>m. isnull (reg_diff_source m)) df_map) un_reg)"

definition apply_regional_differentiation ::
    "package \<Rightarrow> config \<Rightarrow> map_row list \<Rightarrow> error + diff_row list" where
  "apply_regional_differentiation pk cfg df_map =
     (case cfg_ref_region cfg of
        None \<Rightarrow> Inl AssertionError
      | Some r \<Rightarrow>
          (case get_weo_regional_differentiation pk cfg of
             Inl e \<Rightarrow> Inl e
           | Inr df_weo \<Rightarrow>
               (case get_intratec_regional_differentiation pk (cfg_node cfg) r of
                  Inl e \<Rightarrow> Inl e
                | Inr df_intratec \<Rightarrow>
                    let filt_weo = filt_weo_of df_map df_weo;
                        filt_intratec = filt_intratec_of df_map df_intratec;
                        filt_none = filt_none_of df_map (un_reg_of filt_intratec)
                    in Inr (map (\<lambda>x. filt_row.extend x
                                  \<lparr>reg_cost_base_year =
                                     fmul (base_year_reference_region_cost x) (reg_cost_ratio x)\<rparr>)
                              (filt_weo @ filt_intratec @ filt_none)))))"

section \<open>GDP ratios and the regression of cost ratios\<close>

text \<open>
  \<open>regions_countries\<close>: the node file without \<open>World\<close>, one row per region and child.
\<close>

definition regions_countries_of :: "(string \<times> string list) list \<Rightarrow> (string \<times> string) list" where
  "regions_countries_of nodes_data =
     concat (map (\<lambda>(k, children). map (\<lambda>c. (k, c)) children)
               (filter (\<lambda>(k, children). k \<noteq> ''World'') nodes_data))"

text \<open>The key columns of the GDP tables, the aggregated table and the table returned.\<close>

record gdp_key =
  scenario_version :: string
  scenario :: string
  gdp_region :: string
  gdp_year :: int

record agg_row = gdp_key +
  total_gdp :: fl
  total_population :: fl
  per_capita :: fl

record gdp_row = gdp_key +
  gdp_ppp_per_capita :: fl
  gdp_ratio_reg_to_reference :: fl

text \<open>
  The cells of the pivot: the SSP rows, left-merged with \<open>regions_countries\<close> on the
  country code, each with its index (scenario version, scenario, region, country name,
  country code, year), its variable and its value. \<open>scenario\<close> is the first four
  characters of the scenario version; the region is NaN for a country of no region.
\<close>

type_synonym pivot_index = "string \<times> string \<times> string option \<times> string \<times> string \<times> int"

definition pivot_cells :: "(string \<times> string) list \<Rightarrow> ssp_row list \<Rightarrow> (pivot_index \<times> string \<times> fl) list" where
  "pivot_cells regions_countries ssp =
     map (\<lambda>(r, rc).
            ((ssp_scenario_version r, take 4 (ssp_scenario_version r), map_option fst rc,
              ssp_country_name_adj r, ssp_country_alpha_3 r, ssp_year r),
             ssp_variable r, ssp_value r))
       (merge_left ssp_country_alpha_3 snd ssp regions_countries)"

text \<open>
  The groups of \<open>groupby(["scenario_version", "scenario", "region", "year"])\<close>: an index
  whose region is NaN belongs to no group.
\<close>

fun group_of :: "pivot_index \<Rightarrow> (string \<times> string \<times> string \<times> int) option" where
  "group_of (sv, sc, None, name, code, y) = None"
| "group_of (sv, sc, Some g, name, code, y) = Some (sv, sc, g, y)"

text \<open>
  The sum of one variable over a group: \<open>sum\<close> skips NaN cells, and the sum of no cell
  is 0.
\<close>

definition group_sum :: "(pivot_index \<times> string \<times> fl) list \<Rightarrow> string \<Rightarrow>
    string \<times> string \<times> string \<times> int \<Rightarrow> fl" where
  "group_sum cells var k =
     Some (sum_list (dropna (map (\<lambda>(i, v, x). x)
             (filter (\<lambda>(i, v, x). v = var \<and> group_of i = Some k) cells))))"

text \<open>
  The aggregation of \<open>process_raw_ssp_data\<close>: pivot, group, sum, and GDP per capita. The
  pivot raises \<open>ValueError\<close> when an index has two cells of one variable, and the
  aggregation raises \<open>KeyError\<close> when one of the two variables is no column of the pivot.
\<close>

definition aggregate_ssp :: "(string \<times> string) list \<Rightarrow> ssp_row list \<Rightarrow> error + agg_row list" where
  "aggregate_ssp regions_countries ssp =
     (let cells = pivot_cells regions_countries ssp in
      if \<not> distinct (map (\<lambda>(i, v, x). (i, v)) cells)
      then Inl (ValueError ''Index contains duplicate entries, cannot reshape'')
      else if ''GDP|PPP'' \<notin> set (map (\<lambda>(i, v, x). v) cells) \<or>
              ''Population'' \<notin> set (map (\<lambda>(i, v, x). v) cells)
      then Inl KeyError
      else
        Inr (map (\<lambda>(sv, sc, g, y).
                    \<lparr>scenario_version = sv, scenario = sc, gdp_region = g, gdp_year = y,
                     total_gdp = group_sum cells ''GDP|PPP'' (sv, sc, g, y),
                     total_population = group_sum cells ''Population'' (sv, sc, g, y),
                     per_capita = fdiv (group_sum cells ''GDP|PPP'' (sv, sc, g, y))
                                    (group_sum cells ''Population'' (sv, sc, g, y))\<rparr>)
               (sort (remdups (concat (map (\<lambda>(i, v, x). case group_of i of
                                                 None \<Rightarrow> [] | Some k \<Rightarrow> [k]) cells))))))"

text \<open>
  The reference region when none is given: \<open>R11_NAM\<close>, \<open>R12_NAM\<close> or \<open>R20_NAM\<close>
  for the three node lists, and still \<open>None\<close> for any other.
\<close>

definition default_ref_region :: "string \<Rightarrow> string option \<Rightarrow> string option" where
  "default_ref_region input_node input_ref_region =
     (case input_ref_region of
        Some r \<Rightarrow> Some r
      | None \<Rightarrow>
          if upper input_node = ''R11'' then Some ''R11_NAM''
          else if upper input_node = ''R12'' then Some ''R12_NAM''
          else if upper input_node = ''R20'' then Some ''R20_NAM''
          else None)"

text \<open>
  The table with the ratios to the reference region, the copy of SSP2 as LED, sorted by
  scenario, scenario version, region and year.
\<close>

definition gdp_ratios :: "agg_row list \<Rightarrow> string \<Rightarrow> gdp_row list" where
  "gdp_ratios df reference_region =
     (let ratios =
            map (\<lambda>(a, b). \<lparr>scenario_version = scenario_version a, scenario = scenario a,
                           gdp_region = gdp_region a, gdp_year = gdp_year a,
                           gdp_ppp_per_capita = per_capita a,
                           gdp_ratio_reg_to_reference = fdiv (per_capita a) (per_capita b)\<rparr>)
              (merge_inner (\<lambda>a. (scenario_version a, scenario a, gdp_year a))
                 (\<lambda>b. (scenario_version b, scenario b, gdp_year b))
                 df (filter (\<lambda>b. gdp_region b = reference_region) df));
          df_led = map (\<lambda>r. r\<lparr>scenario := ''LED''\<rparr>) (filter (\<lambda>r. scenario r = ''SSP2'') ratios)
      in sort_key (\<lambda>r. (scenario r, scenario_version r, gdp_region r, gdp_year r))
           (ratios @ df_led))"

text \<open>
  \<open>process_raw_ssp_data\<close>. The result is what the function printed, and then the
  exception it raised or the value it returned; it returns \<open>None\<close> when it falls off
  its end.
\<close>

definition process_raw_ssp_data ::
    "package \<Rightarrow> string \<Rightarrow> string option \<Rightarrow> message list \<times> (error + gdp_row list option)" where
  "process_raw_ssp_data pk input_node input_ref_region_arg =
     (let node_up = upper input_node;
          out = (if node_up \<notin> set [''R11'', ''R12'', ''R20''] then [InvalidRegion] else []);
          input_ref_region = default_ref_region input_node input_ref_region_arg
      in case node_file pk (node_up @ ''.yaml'') of
           None \<Rightarrow> (out, Inl FileNotFoundError)
         | Some nodes_data \<Rightarrow>
             (case aggregate_ssp (regions_countries_of nodes_data) (ssp_data pk) of
                Inl e \<Rightarrow> (out, Inl e)
              | Inr df \<Rightarrow>
                  (case input_ref_region of
                     None \<Rightarrow> (out, Inl AttributeError)
                   | Some r \<Rightarrow>
                       let reference_region = upper r in
                       if reference_region \<notin> set (unique (map gdp_region df))
                       then (out @ [InvalidReferenceRegion (unique (map gdp_region df))], Inr None)
                       else (out, Inr (Some (gdp_ratios df reference_region))))))"

text \<open>
  The base year of \<open>calculate_indiv_adjusted_region_cost_ratios\<close>: the configured year
  when the GDP table has it, else the earliest year of the table, with a line printed.
  \<open>min\<close> of no year raises \<open>ValueError\<close>.
\<close>

definition base_year_of :: "int \<Rightarrow> gdp_row list \<Rightarrow> error + int \<times> message list" where
  "base_year_of input_base_year df_gdp =
     (let years = unique (map gdp_year df_gdp) in
      if input_base_year \<notin> set years then
        (if years = [] then Inl (ValueError ''min() arg is an empty sequence'')
         else Inr (min_list years, [BaseYearNotFound input_base_year (min_list years)]))
      else Inr (input_base_year, []))"

text \<open>
  \<open>scipy.stats.linregress\<close> of the SciPy library, in exact arithmetic: the least-squares
  line through the points \<open>(x, y)\<close>, from the means and the (biased) covariances as
  SciPy computes them. It raises \<open>ValueError\<close> on empty input and when all \<open>x\<close> are the
  same. Of its five results only slope and intercept are modelled; the others (\<open>rvalue\<close>,
  \<open>pvalue\<close>, \<open>stderr\<close>) are dropped by the caller before any use.
\<close>

definition fsum :: "fl list \<Rightarrow> fl" where
  "fsum xs = foldl fadd (Some 0) xs"

definition linregress :: "fl list \<Rightarrow> fl list \<Rightarrow> error + fl \<times> fl" where
  "linregress x y =
     (if x = [] \<or> y = [] then Inl (ValueError ''Inputs must not be empty.'')
      else if 1 < length x \<and> list_all (\<lambda>a. a \<noteq> None \<and> a = hd x) x
      then Inl (ValueError ''Cannot calculate a linear regression if all x values are identical'')
      else
        let n = Some (real (length x));
            xmean = fdiv (fsum x) n;
            ymean = fdiv (fsum y) n;
            ssxm = fdiv (fsum (map (\<lambda>a. fmul (fsub a xmean) (fsub a xmean)) x)) n;
            ssxym = fdiv (fsum (map (\<lambda>(a, b). fmul (fsub a xmean) (fsub b ymean)) (zip x y))) n;
            slope = fdiv ssxym ssxm;
            intercept = fsub ymean (fmul slope xmean)
        in Inr (slope, intercept))"

text \<open>
  The rows of the regression: the key of a group (scenario version, scenario, technology,
  region), in \<open>df_gdp_cost\<close> with the GDP ratio and the cost ratio of the base year, in
  \<open>df_reg\<close> with slope and intercept.
\<close>

record reg_key =
  r_scenario_version :: string
  r_scenario :: string
  r_message_technology :: string
  r_region :: string

record gdp_cost_row = reg_key +
  gdp_ratio :: fl
  cost_ratio :: fl

record reg_row = reg_key +
  slope :: fl
  intercept :: fl

definition key_of :: "'a reg_key_scheme \<Rightarrow> string \<times> string \<times> string \<times> string" where
  "key_of d = (r_scenario_version d, r_scenario d, r_message_technology d, r_region d)"

text \<open>
  \<open>groupby(["scenario_version", "scenario", "message_technology", "region"])\<close>: the
  groups in the order of their keys, each with its rows in the order of the table.
\<close>

definition groups_of :: "gdp_cost_row list \<Rightarrow> gdp_cost_row list list" where
  "groups_of df =
     map (\<lambda>k. filter (\<lambda>d. key_of d = k) df) (sort (remdups (map key_of df)))"

text \<open>The first exception of a list of results, or all the values.\<close>

fun collect :: "(error + 'a) list \<Rightarrow> error + 'a list" where
  "collect [] = Inr []"
| "collect (Inl e # rs) = Inl e"
| "collect (Inr v # rs) = (case collect rs of Inl e \<Rightarrow> Inl e | Inr vs \<Rightarrow> Inr (v # vs))"

text \<open>
  The points of the regression of a group that is not of the reference region: a copy of
  the group with both ratios set to 1, and then the group itself.
\<close>

definition regression_points :: "gdp_cost_row list \<Rightarrow> gdp_cost_row list" where
  "regression_points df = map (\<lambda>d. d\<lparr>gdp_ratio := Some 1, cost_ratio := Some 1\<rparr>) df @ df"

text \<open>
  \<open>indiv_regress_tech_cost_ratio_vs_gdp_ratio\<close>, the function applied to every group.
  A group of the reference region gets NaN for slope and intercept, in as many rows as it
  has; any other group gets the line through its regression points, one row per key.
\<close>

definition indiv_regress_tech_cost_ratio_vs_gdp_ratio ::
    "string \<Rightarrow> gdp_cost_row list \<Rightarrow> error + reg_row list" where
  "indiv_regress_tech_cost_ratio_vs_gdp_ratio reference_region df =
     (case df of
        [] \<Rightarrow> Inl IndexError
      | d0 # ds \<Rightarrow>
          if r_region d0 = reference_region
          then Inr (map (\<lambda>d. \<lparr>r_scenario_version = r_scenario_version d,
                               r_scenario = r_scenario d,
                               r_message_technology = r_message_technology d,
                               r_region = r_region d, slope = None, intercept = None\<rparr>) df)
          else
            let pts = regression_points df in
            collect (map (\<lambda>(sv, sc, t, g).
                            case linregress (map gdp_ratio (filter (\<lambda>d. key_of d = (sv, sc, t, g)) pts))
                                   (map cost_ratio (filter (\<lambda>d. key_of d = (sv, sc, t, g)) pts)) of
                              Inl e \<Rightarrow> Inl e
                            | Inr (s, i) \<Rightarrow>
                                Inr \<lparr>r_scenario_version = sv, r_scenario = sc,
                                     r_message_technology = t, r_region = g,
                                     slope = s, intercept = i\<rparr>)
                       (sort (remdups (map key_of pts)))))"

text \<open>\<open>Series.str.contains\<close> with a pattern of plain characters.\<close>

fun str_contains :: "string \<Rightarrow> string \<Rightarrow> bool" where
  "str_contains [] p = (p = [])"
| "str_contains (c # cs) p = (take (length p) (c # cs) = p \<or> str_contains cs p)"

text \<open>A row of the table returned: the GDP ratio and the adjusted cost ratio of a year.\<close>

record adj_row =
  a_scenario_version :: string
  a_scenario :: string
  a_message_technology :: "string option"
  a_region :: string
  a_year :: int
  a_gdp_ratio :: fl
  reg_cost_ratio_adj :: fl

text \<open>
  \<open>calculate_indiv_adjusted_region_cost_ratios\<close>. \<open>region_diff_df\<close> is the table of
  \<open>apply_regional_differentiation\<close>. The reference region is the argument as it is given
  (not in upper case), or the default of the node list.
\<close>

definition calculate_indiv_adjusted_region_cost_ratios ::
    "package \<Rightarrow> diff_row list \<Rightarrow> string \<Rightarrow> string option \<Rightarrow> int \<Rightarrow>
       message list \<times> (error + adj_row list)" where
  "calculate_indiv_adjusted_region_cost_ratios pk region_diff_df input_node input_ref_region
       input_base_year =
     (case process_raw_ssp_data pk input_node input_ref_region of
        (out, Inl e) \<Rightarrow> (out, Inl e)
      | (out, Inr None) \<Rightarrow> (out, Inl AttributeError)
      | (out, Inr (Some df)) \<Rightarrow>
          let df_gdp = filter (\<lambda>r. 2020 \<le> gdp_year r) df in
          (case base_year_of input_base_year df_gdp of
             Inl e \<Rightarrow> (out, Inl e)
           | Inr (base_year, out2) \<Rightarrow>
               (case default_ref_region input_node input_ref_region of
                  None \<Rightarrow> (out @ out2, Inl UnboundLocalError)
                | Some reference_region \<Rightarrow>
                    let gdp_base_year = filter (\<lambda>r. gdp_year r = base_year) df_gdp;
                        df_gdp_cost =
                          map (\<lambda>(g, c). \<lparr>r_scenario_version = scenario_version g,
                                         r_scenario = scenario g,
                                         r_message_technology = message_technology c,
                                         r_region = gdp_region g,
                                         gdp_ratio = gdp_ratio_reg_to_reference g,
                                         cost_ratio = reg_cost_ratio c\<rparr>)
                            (merge_inner (\<lambda>g. Some (gdp_region g)) region
                               gdp_base_year region_diff_df);
                        dfs = groups_of df_gdp_cost
                    in (case collect (map (indiv_regress_tech_cost_ratio_vs_gdp_ratio
                                             reference_region) dfs) of
                          Inl e \<Rightarrow> (out @ out2, Inl e)
                        | Inr l_reg \<Rightarrow>
                            if l_reg = []
                            then (out @ out2, Inl (ValueError ''No objects to concatenate''))
                            else
                              (out @ out2,
                               Inr (map (\<lambda>(g, r).
                                      \<lparr>a_scenario_version =
                                         (if str_contains (scenario_version g) ''2013''
                                          then ''Previous (2013)'' else ''Review (2023)''),
                                       a_scenario = scenario g,
                                       a_message_technology = map_option r_message_technology r,
                                       a_region = gdp_region g,
                                       a_year = gdp_year g,
                                       a_gdp_ratio = gdp_ratio_reg_to_reference g,
                                       reg_cost_ratio_adj =
                                         (if gdp_region g = reference_region then Some 1
                                          else fadd (fmul (case r of None \<Rightarrow> None
                                                             | Some x \<Rightarrow> slope x)
                                                       (gdp_ratio_reg_to_reference g))
                                                 (case r of None \<Rightarrow> None
                                                  | Some x \<Rightarrow> intercept x))\<rparr>)
                                 (filter (\<lambda>(g, r). base_year \<le> gdp_year g)
                                    (merge_left
                                       (\<lambda>g. (scenario_version g, scenario g, gdp_region g))
                                       (\<lambda>r. (r_scenario_version r, r_scenario r, r_region r))
                                       df_gdp (concat l_reg)))))))))"

section \<open>Projection of the investment costs\<close>

text \<open>
  \<open>project_adjusted_inv_costs\<close> (splines.py) merges three tables that functions outside
  these sources produce. Their columns are placed as the merge keys require: the learning
  curve of the reference region by scenario, technology and year; the adjusted cost ratios
  by scenario version, scenario, WEO technology, region and year; and the regional costs
  of the base year by technology and region.
\<close>

definition FIRST_MODEL_YEAR :: int where
  "FIRST_MODEL_YEAR = 2020"

record nam_learning_row =
  nl_scenario :: string
  nl_message_technology :: string
  nl_weo_technology :: string
  nl_year :: int
  inv_cost_learning_NAM :: fl

record adj_cost_ratio_row =
  ac_scenario_version :: string
  ac_scenario :: string
  ac_weo_technology :: string
  ac_region :: string
  ac_year :: int
  cost_ratio_adj :: fl

record reg_diff_row =
  rd_cost_type :: string
  rd_message_technology :: string
  rd_weo_technology :: string
  rd_weo_region :: string
  rd_region :: string
  cost_region_2021 :: fl
  cost_NAM_adjusted :: fl
  rd_cost_ratio :: fl

record proj_row =
  p_scenario_version :: string
  p_scenario :: string
  p_message_technology :: string
  p_weo_technology :: string
  p_region :: string
  p_year :: int
  inv_cost_learning_only :: fl
  inv_cost_gdp_adj :: fl
  inv_cost_converge :: fl

definition project_adjusted_inv_costs ::
    "nam_learning_row list \<Rightarrow> adj_cost_ratio_row list \<Rightarrow> reg_diff_row list \<Rightarrow> int \<Rightarrow>
       proj_row list" where
  "project_adjusted_inv_costs nam_learning_df adj_cost_ratios_df reg_diff_df
       convergence_year_flag =
     map (\<lambda>((n, a), r).
            \<lparr>p_scenario_version = ac_scenario_version a,
             p_scenario = nl_scenario n,
             p_message_technology = nl_message_technology n,
             p_weo_technology = nl_weo_technology n,
             p_region = ac_region a,
             p_year = nl_year n,
             inv_cost_learning_only =
               (if nl_year n \<le> FIRST_MODEL_YEAR then cost_region_2021 r
                else fmul (inv_cost_learning_NAM n) (rd_cost_ratio r)),
             inv_cost_gdp_adj =
               (if nl_year n \<le> FIRST_MODEL_YEAR then cost_region_2021 r
                else fmul (inv_cost_learning_NAM n) (cost_ratio_adj a)),
             inv_cost_converge =
               (if nl_year n \<le> FIRST_MODEL_YEAR then cost_region_2021 r
                else if nl_year n < convergence_year_flag
                then fmul (inv_cost_learning_NAM n) (rd_cost_ratio r)
                else inv_cost_learning_NAM n)\<rparr>)
       (merge_inner
          (\<lambda>(n, a). (nl_message_technology n, nl_weo_technology n, ac_region a))
          (\<lambda>r. (rd_message_technology r, rd_weo_technology r, rd_region r))
          (merge_inner (\<lambda>n. (nl_scenario n, nl_weo_technology n, nl_year n))
             (\<lambda>a. (ac_scenario a, ac_weo_technology a, ac_year a))
             nam_learning_df adj_cost_ratios_df)
          (filter (\<lambda>r. rd_cost_type r = ''inv_cost'') reg_diff_df))"

section \<open>The command-line callback for files of scenario URLs\<close>

text \<open>
  \<open>urls_from_file\<close> (util/click.py) builds its list with \<open>ScenarioInfo.from_url\<close>, and
  the test of the callback writes the list back with \<open>ScenarioInfo.url\<close>. The class
  \<open>ScenarioInfo\<close> is not part of the sources.
\<close>

record scenario_info =
  si_model :: string
  si_scenario :: string
  si_version :: "nat option"

text \<open>Decimal numerals.\<close>

definition digit_char :: "nat \<Rightarrow> char" where
  "digit_char d = ''0123456789'' ! d"

fun string_of_nat :: "nat \<Rightarrow> string" where
  "string_of_nat n =
     (if n < 10 then [digit_char n] else string_of_nat (n div 10) @ [digit_char (n mod 10)])"

declare string_of_nat.simps [simp del]

definition digit_value :: "char \<Rightarrow> nat option" where
  "digit_value c = map_of (zip ''0123456789'' [0 ..< 10]) c"

fun nat_of_digits :: "nat \<Rightarrow> string \<Rightarrow> nat option" where
  "nat_of_digits acc [] = Some acc"
| "nat_of_digits acc (c # cs) =
     (case digit_value c of None \<Rightarrow> None | Some d \<Rightarrow> nat_of_digits (10 * acc + d) cs)"

definition nat_of_string :: "string \<Rightarrow> nat option" where
  "nat_of_string s = (if s = [] then None else nat_of_digits 0 s)"

text \<open>A line as the file iterator yields it ends with the newline character.\<close>

definition newline :: char where
  "newline = CHR 0x0A"

definition strip_newline :: "string \<Rightarrow> string" where
  "strip_newline l = (if l \<noteq> [] \<and> last l = newline then butlast l else l)"

text \<open>
  Modelled from the spec: \<open>ScenarioInfo.from_url\<close>, which is not under src/. The spec
  gives the syntax \<open><model>/<scenario>#<version>\<close> of an identifier and the parts of the
  structured reference: model name, scenario name, optional version. The model name ends
  at the first \<open>/\<close>, the scenario name at the first \<open>#\<close> after it, and the version is a
  decimal number; the end of the line is no part of the identifier. An identifier that
  does not have this form is a parse error.
\<close>

definition from_url :: "string \<Rightarrow> error + scenario_info" where
  "from_url line =
     (let u = strip_newline line;
          m = takeWhile (\<lambda>c. c \<noteq> CHR ''/'') u;
          rest = dropWhile (\<lambda>c. c \<noteq> CHR ''/'') u
      in if m = [] \<or> rest = [] then Inl (ValueError ''invalid scenario URL'')
         else
           let s = takeWhile (\<lambda>c. c \<noteq> CHR ''#'') (tl rest);
               f = dropWhile (\<lambda>c. c \<noteq> CHR ''#'') (tl rest)
           in if s = [] then Inl (ValueError ''invalid scenario URL'')
              else if f = [] then Inr \<lparr>si_model = m, si_scenario = s, si_version = None\<rparr>
              else (case nat_of_string (tl f) of
                      None \<Rightarrow> Inl (ValueError ''invalid scenario URL'')
                    | Some v \<Rightarrow> Inr \<lparr>si_model = m, si_scenario = s, si_version = Some v\<rparr>))"

text \<open>
  Modelled from the spec: the property \<open>ScenarioInfo.url\<close>, which is not under src/: the
  identifier of a structured reference, in the same syntax.
\<close>

definition url :: "scenario_info \<Rightarrow> string" where
  "url s = si_model s @ ''/'' @ si_scenario s @
     (case si_version s of None \<Rightarrow> [] | Some v \<Rightarrow> ''#'' @ string_of_nat v)"

text \<open>Iterating over a text file: its lines, each with its newline.\<close>

fun file_lines :: "string \<Rightarrow> string list" where
  "file_lines [] = []"
| "file_lines (c # cs) =
     (if c = newline then [c] # file_lines cs
      else (case file_lines cs of [] \<Rightarrow> [[c]] | l # ls \<Rightarrow> (c # l) # ls))"

text \<open>
  The context on which the callback stores its result (\<open>context.core.scenarios\<close>), and
  \<open>urls_from_file\<close>. \<open>files\<close> is the file system: the text of the file at a path. Without
  a value the callback returns the empty list and stores nothing.
\<close>

record mm_context =
  core_scenarios :: "scenario_info list"

definition urls_from_file ::
    "(string \<Rightarrow> string option) \<Rightarrow> mm_context \<Rightarrow> string option \<Rightarrow> error + scenario_info list \<times> mm_context" where
  "urls_from_file files ctx val =
     (case val of
        None \<Rightarrow> Inr ([], ctx)
      | Some path \<Rightarrow>
          (case files path of
             None \<Rightarrow> Inl FileNotFoundError
           | Some text \<Rightarrow>
               (case collect (map from_url (file_lines text)) of
                  Inl e \<Rightarrow> Inl e
                | Inr si \<Rightarrow> Inr (si, ctx\<lparr>core_scenarios := si\<rparr>))))"

text \<open>
  Writing the list back, one URL per line, as the test of the callback prints it.
\<close>

definition serialize :: "scenario_info list \<Rightarrow> string" where
  "serialize si = concat (map (\<lambda>s. url s @ [newline]) si)"

text \<open>
  A well-formed file of scenario URLs: every line is \<open><model>/<scenario>#<version>\<close> and
  ends with a newline. The model name is not empty and has no \<open>/\<close>, the scenario name is
  not empty and has no \<open>#\<close>, neither has a newline, and the version is a natural number
  in decimal notation, without leading zeros.
\<close>

definition well_formed_id :: "string \<times> string \<times> nat \<Rightarrow> bool" where
  "well_formed_id i =
     (case i of (m, s, v) \<Rightarrow>
        m \<noteq> [] \<and> CHR ''/'' \<notin> set m \<and> newline \<notin> set m \<and>
        s \<noteq> [] \<and> CHR ''#'' \<notin> set s \<and> newline \<notin> set s)"

definition url_line :: "string \<times> string \<times> nat \<Rightarrow> string" where
  "url_line i = (case i of (m, s, v) \<Rightarrow> m @ ''/'' @ s @ ''#'' @ string_of_nat v @ [newline])"

definition well_formed_file :: "string \<Rightarrow> bool" where
  "well_formed_file text =
     (\<exists>ids. list_all well_formed_id ids \<and> text = concat (map url_line ids))"

text \<open>The structured reference of the parts of an identifier.\<close>

definition info_of :: "string \<times> string \<times> nat \<Rightarrow> scenario_info" where
  "info_of i = (case i of (m, s, v) \<Rightarrow> \<lparr>si_model = m, si_scenario = s, si_version = Some v\<rparr>)"

section \<open>Example data\<close>

text \<open>
  A small package: two regions of R11, the WEO costs of one technology, two Intratec
  indices, node files for the node lists R11 and R14, and the population and GDP of three
  countries in 2020; a configuration that names the reference region in lower case, one whose
  reference region is in neither source, and a technology mapping with one technology for
  each source.
\<close>

definition package_example :: package where
  "package_example =
     \<lparr>node_codelist = (\<lambda>regions. if regions = ''R11''
          then [(''R11_NAM'', ''United States''), (''R11_WEU'', ''European Union'')] else []),
      all_cost_df =
        [\<lparr>cost_type = ''inv_cost'', weo_technology = ''ccgt'', weo_region = ''United States'',
           weo_year = ''2021'', weo_value = Some 1000\<rparr>,
         \<lparr>cost_type = ''inv_cost'', weo_technology = ''ccgt'', weo_region = ''European Union'',
           weo_year = ''2021'', weo_value = Some 800\<rparr>,
         \<lparr>cost_type = ''fix_cost'', weo_technology = ''ccgt'', weo_region = ''United States'',
           weo_year = ''2021'', weo_value = Some 25\<rparr>,
         \<lparr>cost_type = ''fix_cost'', weo_technology = ''ccgt'', weo_region = ''European Union'',
           weo_year = ''2021'', weo_value = Some 20\<rparr>],
      intratec_indices =
        [\<lparr>in_region = ''R11_NAM'', in_index = Some 2\<rparr>,
         \<lparr>in_region = ''R11_WEU'', in_index = Some 3\<rparr>],
      adapt_R11_R12 = map (\<lambda>r. r\<lparr>in_region := ''R12'' @ drop 3 (in_region r)\<rparr>),
      node_file = (\<lambda>name.
         if name = ''R11.yaml'' then
           Some [(''World'', [''R11_NAM'', ''R11_WEU'']), (''R11_NAM'', [''CAN'', ''USA'']),
                 (''R11_WEU'', [''FRA''])]
         else if name = ''R14.yaml'' then
           Some [(''World'', [''R14_NAM'', ''R14_WEU'']), (''R14_NAM'', [''CAN'', ''USA'']),
                 (''R14_WEU'', [''FRA''])]
         else None),
      ssp_data =
        [\<lparr>ssp_scenario_version = ''SSP2 - Review Phase 1'', ssp_country_name_adj = ''Canada'',
           ssp_country_alpha_3 = ''CAN'', ssp_variable = ''Population'', ssp_year = 2020,
           ssp_value = Some 40\<rparr>,
         \<lparr>ssp_scenario_version = ''SSP2 - Review Phase 1'', ssp_country_name_adj = ''Canada'',
           ssp_country_alpha_3 = ''CAN'', ssp_variable = ''GDP|PPP'', ssp_year = 2020,
           ssp_value = Some 2000\<rparr>,
         \<lparr>ssp_scenario_version = ''SSP2 - Review Phase 1'',
           ssp_country_name_adj = ''United States'',
           ssp_country_alpha_3 = ''USA'', ssp_variable = ''Population'', ssp_year = 2020,
           ssp_value = Some 360\<rparr>,
         \<lparr>ssp_scenario_version = ''SSP2 - Review Phase 1'',
           ssp_country_name_adj = ''United States'',
           ssp_country_alpha_3 = ''USA'', ssp_variable = ''GDP|PPP'', ssp_year = 2020,
           ssp_value = Some 22000\<rparr>,
         \<lparr>ssp_scenario_version = ''SSP2 - Review Phase 1'', ssp_country_name_adj = ''France'',
           ssp_country_alpha_3 = ''FRA'', ssp_variable = ''Population'', ssp_year = 2020,
           ssp_value = Some 60\<rparr>,
         \<lparr>ssp_scenario_version = ''SSP2 - Review Phase 1'', ssp_country_name_adj = ''France'',
           ssp_country_alpha_3 = ''FRA'', ssp_variable = ''GDP|PPP'', ssp_year = 2020,
           ssp_value = Some 2700\<rparr>]\<rparr>"

definition config_example :: config where
  "config_example = \<lparr>cfg_node = ''R11'', cfg_ref_region = Some ''r11_nam''\<rparr>"

definition config_absent :: config where
  "config_absent = \<lparr>cfg_node = ''R11'', cfg_ref_region = Some ''R11_AFR''\<rparr>"

definition gas_cc :: map_row where
  "gas_cc = \<lparr>message_technology = ''gas_cc'', reg_diff_source = Some ''weo'',
     reg_diff_technology = Some ''ccgt'', base_year_reference_region_cost = None,
     fix_ratio = None\<rparr>"

definition furnace :: map_row where
  "furnace = \<lparr>message_technology = ''furnace'', reg_diff_source = Some ''intratec'',
     reg_diff_technology = Some ''all'', base_year_reference_region_cost = Some 500,
     fix_ratio = None\<rparr>"

definition dri :: map_row where
  "dri = \<lparr>message_technology = ''dri'', reg_diff_source = None,
     reg_diff_technology = None, base_year_reference_region_cost = Some 100,
     fix_ratio = None\<rparr>"

text \<open>
  The aggregated GDP table of the package for R11, the table of GDP ratios with
  \<open>R11_NAM\<close> as the reference region, and a row of \<open>df_gdp_cost\<close>.
\<close>

definition agg_example :: "agg_row list" where
  "agg_example =
     [\<lparr>scenario_version = ''SSP2 - Review Phase 1'', scenario = ''SSP2'',
        gdp_region = ''R11_NAM'', gdp_year = 2020, total_gdp = Some 24000,
        total_population = Some 400, per_capita = Some 60\<rparr>,
      \<lparr>scenario_version = ''SSP2 - Review Phase 1'', scenario = ''SSP2'',
        gdp_region = ''R11_WEU'', gdp_year = 2020, total_gdp = Some 2700,
        total_population = Some 60, per_capita = Some 45\<rparr>]"

definition gdp_example :: "gdp_row list" where
  "gdp_example =
     [\<lparr>scenario_version = ''SSP2 - Review Phase 1'', scenario = ''LED'',
        gdp_region = ''R11_NAM'', gdp_year = 2020,
        gdp_ppp_per_capita = Some 60, gdp_ratio_reg_to_reference = Some 1\<rparr>,
      \<lparr>scenario_version = ''SSP2 - Review Phase 1'', scenario = ''LED'',
        gdp_region = ''R11_WEU'', gdp_year = 2020,
        gdp_ppp_per_capita = Some 45, gdp_ratio_reg_to_reference = Some (3 / 4)\<rparr>,
      \<lparr>scenario_version = ''SSP2 - Review Phase 1'', scenario = ''SSP2'',
        gdp_region = ''R11_NAM'', gdp_year = 2020,
        gdp_ppp_per_capita = Some 60, gdp_ratio_reg_to_reference = Some 1\<rparr>,
      \<lparr>scenario_version = ''SSP2 - Review Phase 1'', scenario = ''SSP2'',
        gdp_region = ''R11_WEU'', gdp_year = 2020,
        gdp_ppp_per_capita = Some 45, gdp_ratio_reg_to_reference = Some (3 / 4)\<rparr>]"

definition d_example :: gdp_cost_row where
  "d_example = \<lparr>r_scenario_version = ''SSP2 - Review Phase 1'', r_scenario = ''SSP2'',
     r_message_technology = ''gas_cc'', r_region = ''R11_WEU'',
     gdp_ratio = Some (3 / 4), cost_ratio = Some (4 / 5)\<rparr>"

text \<open>The file of the test of the callback, and a file system that holds it.\<close>

definition text_example :: string where
  "text_example = ''m/s#3'' @ [newline] @ ''foo/bar#5'' @ [newline] @ ''baz/qux#123'' @ [newline]"

definition files_example :: "string \<Rightarrow> string option" where
  "files_example path = (if path = ''scenarios.txt'' then Some text_example else None)"

text \<open>
  A learning curve, adjusted cost ratios and regional costs of one technology in two
  regions and two years, and the table that \<open>project_adjusted_inv_costs\<close> returns for
  them (with the convergence year 2050, and with the convergence year 2020).
\<close>

definition nam_example :: "nam_learning_row list" where
  "nam_example =
     [\<lparr>nl_scenario = ''SSP2'', nl_message_technology = ''gas_cc'', nl_weo_technology = ''ccgt'',
        nl_year = 2020, inv_cost_learning_NAM = Some 1000\<rparr>,
      \<lparr>nl_scenario = ''SSP2'', nl_message_technology = ''gas_cc'', nl_weo_technology = ''ccgt'',
        nl_year = 2050, inv_cost_learning_NAM = Some 900\<rparr>]"

definition adj_example :: "adj_cost_ratio_row list" where
  "adj_example =
     [\<lparr>ac_scenario_version = ''Review (2023)'', ac_scenario = ''SSP2'',
        ac_weo_technology = ''ccgt'', ac_region = ''R11_NAM'', ac_year = 2020,
        cost_ratio_adj = Some 1\<rparr>,
      \<lparr>ac_scenario_version = ''Review (2023)'', ac_scenario = ''SSP2'',
        ac_weo_technology = ''ccgt'', ac_region = ''R11_WEU'', ac_year = 2020,
        cost_ratio_adj = Some (4 / 5)\<rparr>,
      \<lparr>ac_scenario_version = ''Review (2023)'', ac_scenario = ''SSP2'',
        ac_weo_technology = ''ccgt'', ac_region = ''R11_NAM'', ac_year = 2050,
        cost_ratio_adj = Some 1\<rparr>,
      \<lparr>ac_scenario_version = ''Review (2023)'', ac_scenario = ''SSP2'',
        ac_weo_technology = ''ccgt'', ac_region = ''R11_WEU'', ac_year = 2050,
        cost_ratio_adj = Some (9 / 10)\<rparr>]"

definition reg_example :: "reg_diff_row list" where
  "reg_example =
     [\<lparr>rd_cost_type = ''inv_cost'', rd_message_technology = ''gas_cc'',
        rd_weo_technology = ''ccgt'', rd_weo_region = ''United States'',
        rd_region = ''R11_NAM'', cost_region_2021 = Some 1000, cost_NAM_adjusted = Some 1000,
        rd_cost_ratio = Some 1\<rparr>,
      \<lparr>rd_cost_type = ''inv_cost'', rd_message_technology = ''gas_cc'',
        rd_weo_technology = ''ccgt'', rd_weo_region = ''European Union'',
        rd_region = ''R11_WEU'', cost_region_2021 = Some 800, cost_NAM_adjusted = Some 1000,
        rd_cost_ratio = Some (4 / 5)\<rparr>]"

definition proj_example :: "proj_row list" where
  "proj_example =
     [\<lparr>p_scenario_version = ''Review (2023)'', p_scenario = ''SSP2'',
        p_message_technology = ''gas_cc'', p_weo_technology = ''ccgt'',
        p_region = ''R11_NAM'', p_year = 2020,
        inv_cost_learning_only = Some 1000, inv_cost_gdp_adj = Some 1000,
        inv_cost_converge = Some 1000\<rparr>,
      \<lparr>p_scenario_version = ''Review (2023)'', p_scenario = ''SSP2'',
        p_message_technology = ''gas_cc'', p_weo_technology = ''ccgt'',
        p_region = ''R11_WEU'', p_year = 2020,
        inv_cost_learning_only = Some 800, inv_cost_gdp_adj = Some 800,
        inv_cost_converge = Some 800\<rparr>,
      \<lparr>p_scenario_version = ''Review (2023)'', p_scenario = ''SSP2'',
        p_message_technology = ''gas_cc'', p_weo_technology = ''ccgt'',
        p_region = ''R11_NAM'', p_year = 2050,
        inv_cost_learning_only = Some 900, inv_cost_gdp_adj = Some 900,
        inv_cost_converge = Some 900\<rparr>,
      \<lparr>p_scenario_version = ''Review (2023)'', p_scenario = ''SSP2'',
        p_message_technology = ''gas_cc'', p_weo_technology = ''ccgt'',
        p_region = ''R11_WEU'', p_year = 2050,
        inv_cost_learning_only = Some 720, inv_cost_gdp_adj = Some 810,
        inv_cost_converge = Some 900\<rparr>]"

section \<open>Properties of the WEO reader\<close>

lemma filter_keyed_singleton:
  "distinct ks \<Longrightarrow> k \<in> set ks \<Longrightarrow>
     filter (\<lambda>y. fst y = k) (map (\<lambda>k. (k, f k)) ks) = [(k, f k)]"
  by (induction ks) (auto simp: filter_empty_conv)

lemma concat_map_single:
  "(\<And>x. x \<in> set xs \<Longrightarrow> g x = [h x]) \<Longrightarrow> concat (map g xs) = map h xs"
  by (induction xs) auto

text \<open>
  A left merge with a table that has exactly one row per key of the left table pairs every
  left row with that row, in the order of the left table.
\<close>

lemma merge_left_keyed:
  assumes "distinct ks" "ka ` set xs \<subseteq> set ks"
  shows "merge_left ka fst xs (map (\<lambda>k. (k, f k)) ks) = map (\<lambda>x. (x, Some (ka x, f (ka x)))) xs"
  unfolding merge_left_def
proof (rule concat_map_single)
  fix x assume "x \<in> set xs"
  with assms(2) have "ka x \<in> set ks" by auto
  from filter_keyed_singleton[OF assms(1) this, of f]
  show "(case filter (\<lambda>y. fst y = ka x) (map (\<lambda>k. (k, f k)) ks) of
           [] \<Rightarrow> [(x, None)] | ms \<Rightarrow> map (\<lambda>y. (x, Some y)) ms) = [(x, Some (ka x, f (ka x)))]"
    by simp
qed

lemma dropna_group:
  "dropna (map weo_value (filter (\<lambda>r. weo_group r = k) df)) = present_values df k"
  unfolding dropna_def present_values_def by (induction df) auto

text \<open>
  The pipeline of \<open>get_weo_data\<close> (medians per group, left merge, \<open>np.where\<close>) as one
  pass over the rows.
\<close>

lemma get_weo_data_rowwise:
  "get_weo_data df =
     map (\<lambda>r. case weo_value r of
                Some v \<Rightarrow> r
              | None \<Rightarrow> r\<lparr>weo_value := middle_value (present_values df (weo_group r))\<rparr>) df"
proof -
  have "merge_left weo_group fst df (df_median df) =
          map (\<lambda>x. (x, Some (weo_group x,
                 median (map weo_value (filter (\<lambda>r. weo_group r = weo_group x) df))))) df"
    unfolding df_median_def by (rule merge_left_keyed) auto
  then show ?thesis
    by (auto simp: get_weo_data_def where_isnull_def isnull_def median_def dropna_group
             split: option.splits)
qed

text \<open>
  C4: \<open>get_weo_data\<close> returns the rows of \<open>all_cost_df\<close> one for one and in order. A row
  whose value is present is returned as it is; a row whose value is missing (NaN, the
  cell \<open>n.a.\<close>) gets the median of the values that are present in its group of
  technology and cost type, and nothing else of the row changes.
\<close>

theorem get_weo_data_imputes_group_median:
  "length (get_weo_data df) = length df \<and>
   get_weo_data df =
     map (\<lambda>r. case weo_value r of
                Some v \<Rightarrow> r
              | None \<Rightarrow> r\<lparr>weo_value := middle_value (present_values df (weo_group r))\<rparr>) df"
proof
  show "length (get_weo_data df) = length df"
    by (subst get_weo_data_rowwise) simp
  show "get_weo_data df =
     map (\<lambda>r. case weo_value r of
                Some v \<Rightarrow> r
              | None \<Rightarrow> r\<lparr>weo_value := middle_value (present_values df (weo_group r))\<rparr>) df"
    by (rule get_weo_data_rowwise)
qed

text \<open>
  An example: the cost of \<open>ccgt\<close> is missing for India and is 3 and 1 elsewhere; India
  gets the median 2. The missing fixed cost of \<open>ccgt\<close>, alone in its group, stays missing.
\<close>

lemma get_weo_data_example:
  "get_weo_data
     [\<lparr>cost_type = ''inv_cost'', weo_technology = ''ccgt'', weo_region = ''India'',
        weo_year = ''2021'', weo_value = None\<rparr>,
      \<lparr>cost_type = ''inv_cost'', weo_technology = ''ccgt'', weo_region = ''Europe'',
        weo_year = ''2021'', weo_value = Some 3\<rparr>,
      \<lparr>cost_type = ''fix_cost'', weo_technology = ''ccgt'', weo_region = ''India'',
        weo_year = ''2021'', weo_value = None\<rparr>,
      \<lparr>cost_type = ''inv_cost'', weo_technology = ''ccgt'', weo_region = ''United States'',
        weo_year = ''2021'', weo_value = Some 1\<rparr>]
   = [\<lparr>cost_type = ''inv_cost'', weo_technology = ''ccgt'', weo_region = ''India'',
        weo_year = ''2021'', weo_value = Some 2\<rparr>,
      \<lparr>cost_type = ''inv_cost'', weo_technology = ''ccgt'', weo_region = ''Europe'',
        weo_year = ''2021'', weo_value = Some 3\<rparr>,
      \<lparr>cost_type = ''fix_cost'', weo_technology = ''ccgt'', weo_region = ''India'',
        weo_year = ''2021'', weo_value = None\<rparr>,
      \<lparr>cost_type = ''inv_cost'', weo_technology = ''ccgt'', weo_region = ''United States'',
        weo_year = ''2021'', weo_value = Some 1\<rparr>]"
  by (simp add: get_weo_data_def merge_left_def df_median_def weo_group_def median_def
        dropna_def middle_value_def where_isnull_def isnull_def)

section \<open>Properties of the regional differentiation\<close>

text \<open>The imputation keeps the key columns, so a key still determines the value.\<close>

lemma get_weo_data_key_value:
  assumes "distinct (map weo_key df)" "a \<in> set (get_weo_data df)" "b \<in> set (get_weo_data df)"
    "weo_key a = weo_key b"
  shows "weo_value a = weo_value b"
proof -
  let ?F = "\<lambda>r. case weo_value r of
                Some v \<Rightarrow> r
              | None \<Rightarrow> r\<lparr>weo_value := middle_value (present_values df (weo_group r))\<rparr>"
  from assms(2,3) obtain a0 b0 where ab: "a0 \<in> set df" "b0 \<in> set df" "a = ?F a0" "b = ?F b0"
    unfolding get_weo_data_rowwise by auto
  have k: "weo_key (?F x) = weo_key x" for x
    by (simp add: weo_key_def split: option.splits)
  from assms(4) ab k have "weo_key a0 = weo_key b0" by simp
  with assms(1) ab(1,2) have "a0 = b0"
    by (auto simp: distinct_map inj_on_def)
  then have "?F a0 = ?F b0" by (rule arg_cong)
  with ab(3,4) show ?thesis by simp
qed

text \<open>The region map is a dict: no node has two WEO regions.\<close>

lemma region_map_distinct: "distinct (map fst (get_weo_region_map pk regions))"
proof -
  have "distinct (map fst d) \<Longrightarrow> distinct (map fst (foldl (\<lambda>d (i, t). AList.update i t d) d ns))" for d ns
    by (induction ns arbitrary: d) (auto simp: distinct_update split: prod.splits)
  from this[of "[]"] show ?thesis by (simp add: get_weo_region_map_def)
qed

lemma in_df_sel_weoD:
  "x \<in> set (concat (df_sel_weo_of df_weo rmap)) \<Longrightarrow>
     \<exists>r \<in> set df_weo. (sel_region x, weo_region r) \<in> set rmap \<and>
        weo_key x = weo_key r \<and> weo_value x = weo_value r"
  unfolding df_sel_weo_of_def by (auto simp: weo_key_def)

lemma in_weo_reg_ratios:
  "y \<in> set (weo_reg_ratios sel ref) \<Longrightarrow>
     \<exists>a \<in> set sel. \<exists>b \<in> set sel.
        sel_region a = ref \<and> cost_type a = ''inv_cost'' \<and> cost_type b = ''inv_cost'' \<and>
        weo_technology b = weo_technology a \<and> weo_year b = weo_year a \<and>
        source_region y = sel_region b \<and> ref_region_cost y = weo_value a \<and>
        source_cost_ratio y = fdiv (weo_value b) (weo_value a)"
  unfolding weo_reg_ratios_def merge_inner_def by force

lemma fdiv_self: "finite_nonzero v \<Longrightarrow> fdiv v v = Some 1"
  by (cases v) (auto simp: finite_nonzero_def)

text \<open>
  In \<open>df_reg_ratios\<close> a row of the reference region is the reference row merged with
  itself: the two rows have the same node, hence the same WEO region, technology, year and
  cost type, and the table has one row for these.
\<close>

lemma weo_reg_ratios_reference:
  assumes d: "distinct (map weo_key (all_cost_df pk))"
    and y: "y \<in> set (weo_reg_ratios (concat (l_sel_weo_of pk cfg)) ref)"
    and r: "source_region y = ref" and nz: "finite_nonzero (ref_region_cost y)"
  shows "source_cost_ratio y = Some 1"
proof -
  let ?sel = "concat (l_sel_weo_of pk cfg)"
  from in_weo_reg_ratios[OF y] obtain a b where ab: "a \<in> set ?sel" "b \<in> set ?sel"
    "sel_region a = ref" "cost_type a = ''inv_cost''" "cost_type b = ''inv_cost''"
    "weo_technology b = weo_technology a" "weo_year b = weo_year a"
    "source_region y = sel_region b" "ref_region_cost y = weo_value a"
    "source_cost_ratio y = fdiv (weo_value b) (weo_value a)" by blast
  let ?df = "get_weo_data (all_cost_df pk)" and ?m = "get_weo_region_map pk (cfg_node cfg)"
  from ab(1) obtain a0 where a0: "a0 \<in> set ?df" "(sel_region a, weo_region a0) \<in> set ?m"
    "weo_key a = weo_key a0" "weo_value a = weo_value a0"
    unfolding l_sel_weo_of_def using in_df_sel_weoD by blast
  from ab(2) obtain b0 where b0: "b0 \<in> set ?df" "(sel_region b, weo_region b0) \<in> set ?m"
    "weo_key b = weo_key b0" "weo_value b = weo_value b0"
    unfolding l_sel_weo_of_def using in_df_sel_weoD by blast
  from r ab(3,8) have "sel_region b = sel_region a" by simp
  with a0(2) b0(2) region_map_distinct[of pk "cfg_node cfg"]
  have "weo_region a0 = weo_region b0"
    by (metis eq_key_imp_eq_value)
  moreover from a0(3) b0(3) have "weo_region a = weo_region a0" "weo_region b = weo_region b0"
    by (simp_all add: weo_key_def)
  ultimately have "weo_key a = weo_key b"
    using ab(4-7) by (simp add: weo_key_def)
  with a0(3) b0(3) have "weo_key a0 = weo_key b0" by simp
  from get_weo_data_key_value[OF d a0(1) b0(1) this] a0(4) b0(4)
  have "weo_value b = weo_value a" by simp
  with ab(9,10) nz show ?thesis by (simp add: fdiv_self)
qed

lemma in_get_weo:
  assumes "get_weo_regional_differentiation pk cfg = Inr out" "w \<in> set out"
    "cfg_ref_region cfg = Some r"
  shows "\<exists>y \<in> set (weo_reg_ratios (concat (l_sel_weo_of pk cfg)) (upper r)).
           source_region y = source_region w \<and> ref_region_cost y = ref_region_cost w \<and>
           source_cost_ratio y = source_cost_ratio w"
  using assms unfolding get_weo_regional_differentiation_def merge_inner_def
  by (fastforce simp: Let_def split: if_splits)

lemma get_weo_reference:
  assumes "distinct (map weo_key (all_cost_df pk))"
    "get_weo_regional_differentiation pk cfg = Inr out" "w \<in> set out"
    "cfg_ref_region cfg = Some r" "source_region w = upper r" "finite_nonzero (ref_region_cost w)"
  shows "source_cost_ratio w = Some 1"
proof -
  from in_get_weo[OF assms(2,3,4)] obtain y where
    y: "y \<in> set (weo_reg_ratios (concat (l_sel_weo_of pk cfg)) (upper r))"
    "source_region y = source_region w" "ref_region_cost y = ref_region_cost w"
    "source_cost_ratio y = source_cost_ratio w" by blast
  from weo_reg_ratios_reference[OF assms(1) y(1)] y(2-4) assms(5,6) show ?thesis by simp
qed

lemma get_intratec_reference:
  assumes "df_intratec_map_of pk nd = Inr (Some m)" "distinct (map in_region m)"
    "get_intratec_regional_differentiation pk nd r = Inr out" "w \<in> set out"
    "source_region w = upper r" "finite_nonzero (ref_region_cost w)"
  shows "source_cost_ratio w = Some 1"
proof -
  from assms(1,3,4) obtain a b where ab: "a \<in> set m" "b \<in> set m" "in_region a = upper r"
    "source_region w = in_region b" "ref_region_cost w = in_index a"
    "source_cost_ratio w = fdiv (in_index b) (in_index a)"
    unfolding get_intratec_regional_differentiation_def merge_inner_def
    by (auto simp: Let_def split: if_splits)
  from ab(3,4) assms(5) have "in_region a = in_region b" by simp
  with assms(2) ab(1,2) have "a = b" by (auto simp: distinct_map inj_on_def)
  with ab(5,6) assms(6) show ?thesis by (simp add: fdiv_self)
qed


text \<open>The rows of \<open>apply_regional_differentiation\<close> and where they come from.\<close>

lemma in_merge_left_SomeD:
  assumes "(x, Some y) \<in> set (merge_left ka kb xs ys)"
  shows "x \<in> set xs \<and> y \<in> set ys \<and> kb y = ka x"
proof -
  from assms obtain x' where x': "x' \<in> set xs"
    "(x, Some y) \<in> set (case filter (\<lambda>y. kb y = ka x') ys of
        [] \<Rightarrow> [(x', None)] | ms \<Rightarrow> map (\<lambda>y. (x', Some y)) ms)"
    by (auto simp: merge_left_def)
  then have "x = x' \<and> y \<in> set (filter (\<lambda>y. kb y = ka x') ys)"
    by (cases "filter (\<lambda>y. kb y = ka x') ys") auto
  with x'(1) show ?thesis by auto
qed

lemma in_merge_left_fstD:
  assumes "(x, u) \<in> set (merge_left ka kb xs ys)"
  shows "x \<in> set xs"
proof -
  from assms obtain x' where x': "x' \<in> set xs"
    "(x, u) \<in> set (case filter (\<lambda>y. kb y = ka x') ys of
        [] \<Rightarrow> [(x', None)] | ms \<Rightarrow> map (\<lambda>y. (x', Some y)) ms)"
    by (auto simp: merge_left_def)
  then have "x = x'"
    by (cases "filter (\<lambda>y. kb y = ka x') ys") auto
  with x'(1) show ?thesis by simp
qed

lemma in_filt_weo:
  assumes "x \<in> set (filt_weo_of df_map df_weo)" "region x = Some g"
  shows "\<exists>w \<in> set df_weo. source_region w = g \<and> reg_cost_ratio x = source_cost_ratio w"
proof -
  from assms(1) obtain m u where mu: "(m, u) \<in> set (merge_left reg_diff_technology
       (\<lambda>x. Some (source_technology x))
       (filter (\<lambda>m. reg_diff_source m = Some ''energy'' \<or> reg_diff_source m = Some ''weo'') df_map)
       df_weo)"
    "region x = map_option source_region u"
    "reg_cost_ratio x = (case u of None \<Rightarrow> None | Some w \<Rightarrow> source_cost_ratio w)"
    unfolding filt_weo_of_def by auto
  from mu(2) assms(2) obtain w where w: "u = Some w" "source_region w = g" by (cases u) auto
  with mu(1) have "w \<in> set df_weo" using in_merge_left_SomeD by fastforce
  with w mu(3) show ?thesis by auto
qed

lemma in_filt_intratec:
  assumes "x \<in> set (filt_intratec_of df_map df_intratec)" "region x = Some g"
  shows "\<exists>w \<in> set df_intratec. source_region w = g \<and> reg_cost_ratio x = source_cost_ratio w"
proof -
  from assms(1) obtain m u where mu: "(m, u) \<in> set (merge_left reg_diff_technology
       (\<lambda>x. Some (source_technology x))
       (filter (\<lambda>m. reg_diff_source m = Some ''intratec'') df_map)
       df_intratec)"
    "region x = map_option source_region u"
    "reg_cost_ratio x = (case u of None \<Rightarrow> None | Some w \<Rightarrow> source_cost_ratio w)"
    unfolding filt_intratec_of_def by auto
  from mu(2) assms(2) obtain w where w: "u = Some w" "source_region w = g" by (cases u) auto
  with mu(1) have "w \<in> set df_intratec" using in_merge_left_SomeD by fastforce
  with w mu(3) show ?thesis by auto
qed

lemma in_filt_weo_source:
  "x \<in> set (filt_weo_of df_map df_weo) \<Longrightarrow>
     reg_diff_source x = Some ''energy'' \<or> reg_diff_source x = Some ''weo''"
  unfolding filt_weo_of_def by (auto dest!: in_merge_left_fstD)

lemma in_filt_intratec_source:
  "x \<in> set (filt_intratec_of df_map df_intratec) \<Longrightarrow> reg_diff_source x = Some ''intratec''"
  unfolding filt_intratec_of_def by (auto dest!: in_merge_left_fstD)

lemma in_filt_none_source:
  "x \<in> set (filt_none_of df_map un_reg) \<Longrightarrow> reg_diff_source x = None"
  unfolding filt_none_of_def by (auto simp: isnull_def dest!: in_merge_left_fstD)

text \<open>
  C1: in the table that \<open>apply_regional_differentiation\<close> returns, a row of a technology
  whose source is the WEO (\<open>energy\<close> or \<open>weo\<close>) or Intratec, at the reference region,
  has \<open>reg_cost_ratio = 1\<close>, when the cost of the reference region in the source is a
  number other than zero. The source tables have one row per key: the WEO table per cost
  type, technology, region and year, the Intratec table per region.
\<close>

theorem reg_cost_ratio_one_at_reference_region:
  assumes ref: "cfg_ref_region cfg = Some r"
    and keys: "distinct (map weo_key (all_cost_df pk))"
    and imap: "df_intratec_map_of pk (cfg_node cfg) = Inr (Some m)" "distinct (map in_region m)"
    and weo: "get_weo_regional_differentiation pk cfg = Inr df_weo"
    and intratec: "get_intratec_regional_differentiation pk (cfg_node cfg) r = Inr df_intratec"
    and nz_weo: "\<forall>w\<in>set df_weo. source_region w = upper r \<longrightarrow> finite_nonzero (ref_region_cost w)"
    and nz_intratec:
      "\<forall>w\<in>set df_intratec. source_region w = upper r \<longrightarrow> finite_nonzero (ref_region_cost w)"
    and out: "apply_regional_differentiation pk cfg df_map = Inr all_tech"
    and x: "x \<in> set all_tech"
    and src: "reg_diff_source x = Some ''energy'' \<or> reg_diff_source x = Some ''weo'' \<or>
              reg_diff_source x = Some ''intratec''"
    and reg: "region x = Some (upper r)"
  shows "reg_cost_ratio x = Some 1"
proof -
  let ?fw = "filt_weo_of df_map df_weo" and ?fi = "filt_intratec_of df_map df_intratec"
  let ?fn = "filt_none_of df_map (un_reg_of ?fi)"
  let ?ext = "\<lambda>x. filt_row.extend x
     \<lparr>reg_cost_base_year = fmul (base_year_reference_region_cost x) (reg_cost_ratio x)\<rparr>"
  from out ref weo intratec have "all_tech = map ?ext (?fw @ ?fi @ ?fn)"
    unfolding apply_regional_differentiation_def by (simp add: Let_def)
  with x obtain x0 where "x0 \<in> set (?fw @ ?fi @ ?fn)" "x = ?ext x0"
    by (metis (no_types, lifting) image_iff list.set_map)
  then have x0: "x0 \<in> set (?fw @ ?fi @ ?fn)"
    "reg_diff_source x = reg_diff_source x0" "region x = region x0"
    "reg_cost_ratio x = reg_cost_ratio x0"
    by (simp_all add: filt_row.extend_def)
  from x0(2) src in_filt_none_source have "x0 \<notin> set ?fn" by fastforce
  from x0(3) reg have reg0: "region x0 = Some (upper r)" by simp
  from \<open>x0 \<notin> set ?fn\<close> x0(1) consider (w) "x0 \<in> set ?fw" | (i) "x0 \<in> set ?fi" by auto
  then show ?thesis
  proof cases
    case w
    from in_filt_weo[OF w reg0] obtain y where y: "y \<in> set df_weo"
      "source_region y = upper r" "reg_cost_ratio x0 = source_cost_ratio y" by blast
    from nz_weo y have "finite_nonzero (ref_region_cost y)" by blast
    from get_weo_reference[OF keys weo y(1) ref y(2) this] y(3) x0(4) show ?thesis by simp
  next
    case i
    from in_filt_intratec[OF i reg0] obtain y where y: "y \<in> set df_intratec"
      "source_region y = upper r" "reg_cost_ratio x0 = source_cost_ratio y" by blast
    from nz_intratec y have "finite_nonzero (ref_region_cost y)" by blast
    from get_intratec_reference[OF imap intratec y(1) y(2) this] y(3) x0(4) show ?thesis by simp
  qed
qed

text \<open>The example: the functions at the small package.\<close>

lemma weo_example:
  "get_weo_regional_differentiation package_example config_example =
     Inr [\<lparr>source_technology = ''ccgt'', source_region = ''R11_NAM'',
            ref_region_cost = Some 1000, source_cost_ratio = Some 1,
            weo_fix_ratio = Some (1 / 40)\<rparr>,
          \<lparr>source_technology = ''ccgt'', source_region = ''R11_WEU'',
            ref_region_cost = Some 1000, source_cost_ratio = Some (4 / 5),
            weo_fix_ratio = Some (1 / 40)\<rparr>]"
  by code_simp

lemma intratec_example:
  "get_intratec_regional_differentiation package_example ''R11'' ''r11_nam'' =
     Inr [\<lparr>source_technology = ''all'', source_region = ''R11_NAM'',
            ref_region_cost = Some 2, source_cost_ratio = Some 1\<rparr>,
          \<lparr>source_technology = ''all'', source_region = ''R11_WEU'',
            ref_region_cost = Some 2, source_cost_ratio = Some (3 / 2)\<rparr>]"
  by code_simp

lemma apply_example:
  "apply_regional_differentiation package_example config_example [gas_cc, furnace, dri] =
     Inr [\<lparr>message_technology = ''gas_cc'', reg_diff_source = Some ''weo'',
            reg_diff_technology = Some ''ccgt'',
            base_year_reference_region_cost = Some 1000,
            fix_ratio = Some (1 / 40), region = Some ''R11_NAM'',
            reg_cost_ratio = Some 1, reg_cost_base_year = Some 1000\<rparr>,
          \<lparr>message_technology = ''gas_cc'', reg_diff_source = Some ''weo'',
            reg_diff_technology = Some ''ccgt'',
            base_year_reference_region_cost = Some 1000,
            fix_ratio = Some (1 / 40), region = Some ''R11_WEU'',
            reg_cost_ratio = Some (4 / 5), reg_cost_base_year = Some 800\<rparr>,
          \<lparr>message_technology = ''furnace'', reg_diff_source = Some ''intratec'',
            reg_diff_technology = Some ''all'',
            base_year_reference_region_cost = Some 500, fix_ratio = Some 0,
            region = Some ''R11_NAM'', reg_cost_ratio = Some 1,
            reg_cost_base_year = Some 500\<rparr>,
          \<lparr>message_technology = ''furnace'', reg_diff_source = Some ''intratec'',
            reg_diff_technology = Some ''all'',
            base_year_reference_region_cost = Some 500, fix_ratio = Some 0,
            region = Some ''R11_WEU'', reg_cost_ratio = Some (3 / 2),
            reg_cost_base_year = Some 750\<rparr>,
          \<lparr>message_technology = ''dri'', reg_diff_source = None,
            reg_diff_technology = None,
            base_year_reference_region_cost = Some 100, fix_ratio = Some 0,
            region = Some ''R11_NAM'', reg_cost_ratio = Some 1,
            reg_cost_base_year = Some 100\<rparr>,
          \<lparr>message_technology = ''dri'', reg_diff_source = None,
            reg_diff_technology = None,
            base_year_reference_region_cost = Some 100, fix_ratio = Some 0,
            region = Some ''R11_WEU'', reg_cost_ratio = Some 1,
            reg_cost_base_year = Some 100\<rparr>]"
  by code_simp

theorem reg_cost_ratio_one_witness:
  "cfg_ref_region config_example = Some ''r11_nam'' \<and>
   upper ''r11_nam'' = ''R11_NAM'' \<and>
   distinct (map weo_key (all_cost_df package_example)) \<and>
   distinct (map in_region (intratec_indices package_example)) \<and>
   (\<exists>all_tech. apply_regional_differentiation package_example config_example
        [gas_cc, furnace, dri] = Inr all_tech \<and>
      reg_diff_source (all_tech ! 0) = Some ''weo'' \<and>
      region (all_tech ! 0) = Some ''R11_NAM'' \<and>
      reg_cost_ratio (all_tech ! 0) = Some 1 \<and>
      reg_diff_source (all_tech ! 2) = Some ''intratec'' \<and>
      region (all_tech ! 2) = Some ''R11_NAM'' \<and>
      reg_cost_ratio (all_tech ! 2) = Some 1)"
proof -
  have ref: "cfg_ref_region config_example = Some ''r11_nam''"
    by (simp add: config_example_def)
  have up: "upper ''r11_nam'' = ''R11_NAM''"
    by code_simp
  have keys: "distinct (map weo_key (all_cost_df package_example))"
    by code_simp
  have imap: "df_intratec_map_of package_example (cfg_node config_example) =
      Inr (Some (intratec_indices package_example))"
    by code_simp
  have regs: "distinct (map in_region (intratec_indices package_example))"
    by code_simp
  have intratec: "get_intratec_regional_differentiation package_example
      (cfg_node config_example) ''r11_nam'' = Inr
        [\<lparr>source_technology = ''all'', source_region = ''R11_NAM'',
            ref_region_cost = Some 2, source_cost_ratio = Some 1\<rparr>,
          \<lparr>source_technology = ''all'', source_region = ''R11_WEU'',
            ref_region_cost = Some 2, source_cost_ratio = Some (3 / 2)\<rparr>]"
    using intratec_example by (simp add: config_example_def)
  note main = reg_cost_ratio_one_at_reference_region[OF ref keys imap regs weo_example intratec
      _ _ apply_example]
  have w: "reg_cost_ratio \<lparr>message_technology = ''gas_cc'', reg_diff_source = Some ''weo'',
            reg_diff_technology = Some ''ccgt'',
            base_year_reference_region_cost = Some 1000,
            fix_ratio = Some (1 / 40), region = Some ''R11_NAM'',
            reg_cost_ratio = Some 1, reg_cost_base_year = Some 1000\<rparr> = Some 1"
    by (rule main) (simp_all add: finite_nonzero_def up)
  have i: "reg_cost_ratio \<lparr>message_technology = ''furnace'', reg_diff_source = Some ''intratec'',
            reg_diff_technology = Some ''all'',
            base_year_reference_region_cost = Some 500, fix_ratio = Some 0,
            region = Some ''R11_NAM'', reg_cost_ratio = Some 1,
            reg_cost_base_year = Some 500\<rparr> = Some 1"
    by (rule main) (simp_all add: finite_nonzero_def up)
  from ref up keys regs apply_example w i show ?thesis by simp
qed

text \<open>
  C7: when the reference region of the configuration is not among the regions of the
  mapped WEO table, \<open>get_weo_regional_differentiation\<close> raises \<open>ValueError\<close>; when it is
  not among the regions of the Intratec table, \<open>get_intratec_regional_differentiation\<close>
  raises \<open>ValueError\<close>; in both cases \<open>apply_regional_differentiation\<close>, which calls the
  two, raises \<open>ValueError\<close> and returns no table.
\<close>

theorem reference_region_absent_raises:
  assumes ref: "cfg_ref_region cfg = Some r"
  shows "(upper r \<notin> set (unique (map sel_region (concat (l_sel_weo_of pk cfg)))) \<longrightarrow>
            get_weo_regional_differentiation pk cfg =
              Inl (ValueError (if l_sel_weo_of pk cfg = [] then ''No objects to concatenate''
                               else ''Reference region not found in WEO data'')) \<and>
            apply_regional_differentiation pk cfg df_map =
              Inl (ValueError (if l_sel_weo_of pk cfg = [] then ''No objects to concatenate''
                               else ''Reference region not found in WEO data''))) \<and>
         (df_intratec_map_of pk (cfg_node cfg) = Inr (Some m) \<and>
          upper r \<notin> set (unique (map in_region m)) \<longrightarrow>
            get_intratec_regional_differentiation pk (cfg_node cfg) r =
              Inl (ValueError ''Reference region not found in WEO data'') \<and>
            (\<exists>msg. apply_regional_differentiation pk cfg df_map = Inl (ValueError msg)))"
proof (intro conjI impI)
  assume a: "upper r \<notin> set (unique (map sel_region (concat (l_sel_weo_of pk cfg))))"
  with ref show w: "get_weo_regional_differentiation pk cfg =
      Inl (ValueError (if l_sel_weo_of pk cfg = [] then ''No objects to concatenate''
                       else ''Reference region not found in WEO data''))"
    by (simp add: get_weo_regional_differentiation_def Let_def)
  show "apply_regional_differentiation pk cfg df_map =
      Inl (ValueError (if l_sel_weo_of pk cfg = [] then ''No objects to concatenate''
                       else ''Reference region not found in WEO data''))"
    by (simp add: apply_regional_differentiation_def ref w)
next
  assume a: "df_intratec_map_of pk (cfg_node cfg) = Inr (Some m) \<and>
          upper r \<notin> set (unique (map in_region m))"
  then show i: "get_intratec_regional_differentiation pk (cfg_node cfg) r =
      Inl (ValueError ''Reference region not found in WEO data'')"
    by (simp add: get_intratec_regional_differentiation_def Let_def)
  have "\<exists>msg. get_weo_regional_differentiation pk cfg = Inl (ValueError msg)"
    if "get_weo_regional_differentiation pk cfg = Inl e" for e
    using that ref unfolding get_weo_regional_differentiation_def
    by (auto simp: Let_def split: if_splits)
  then show "\<exists>msg. apply_regional_differentiation pk cfg df_map = Inl (ValueError msg)"
    by (cases "get_weo_regional_differentiation pk cfg")
       (auto simp: apply_regional_differentiation_def ref i)
qed

theorem reference_region_absent_witness:
  "cfg_ref_region config_absent = Some ''R11_AFR'' \<and>
   upper ''R11_AFR'' \<notin> set (unique (map sel_region (concat (l_sel_weo_of package_example config_absent)))) \<and>
   df_intratec_map_of package_example (cfg_node config_absent) =
     Inr (Some (intratec_indices package_example)) \<and>
   upper ''R11_AFR'' \<notin> set (unique (map in_region (intratec_indices package_example))) \<and>
   get_weo_regional_differentiation package_example config_absent =
     Inl (ValueError ''Reference region not found in WEO data'') \<and>
   get_intratec_regional_differentiation package_example (cfg_node config_absent) ''R11_AFR'' =
     Inl (ValueError ''Reference region not found in WEO data'') \<and>
   apply_regional_differentiation package_example config_absent [gas_cc, furnace, dri] =
     Inl (ValueError ''Reference region not found in WEO data'')"
proof -
  have ref: "cfg_ref_region config_absent = Some ''R11_AFR''"
    by (simp add: config_absent_def)
  have w: "upper ''R11_AFR'' \<notin> set (unique (map sel_region
      (concat (l_sel_weo_of package_example config_absent))))"
    by code_simp
  have m: "df_intratec_map_of package_example (cfg_node config_absent) =
      Inr (Some (intratec_indices package_example))"
    by code_simp
  have i: "upper ''R11_AFR'' \<notin> set (unique (map in_region (intratec_indices package_example)))"
    by code_simp
  have ne: "l_sel_weo_of package_example config_absent \<noteq> []"
    by code_simp
  from reference_region_absent_raises[OF ref, where pk = package_example
      and m = "intratec_indices package_example" and df_map = "[gas_cc, furnace, dri]"] w m i ne
  show ?thesis using ref by simp
qed

text \<open>
  C8: a technology without a source gets its regions from \<open>filt_intratec\<close>, the rows of
  the technologies whose source is Intratec. With a mapping that has no such technology
  \<open>un_reg\<close> is empty, and the technology without a source gets one row whose region and
  \<open>reg_cost_ratio\<close> are both NaN, and no row for \<open>R11_NAM\<close> or \<open>R11_WEU\<close>.
\<close>

theorem no_source_without_intratec_rows:
  "apply_regional_differentiation package_example config_example [gas_cc, dri] =
     Inr [\<lparr>message_technology = ''gas_cc'', reg_diff_source = Some ''weo'',
            reg_diff_technology = Some ''ccgt'',
            base_year_reference_region_cost = Some 1000,
            fix_ratio = Some (1 / 40), region = Some ''R11_NAM'',
            reg_cost_ratio = Some 1, reg_cost_base_year = Some 1000\<rparr>,
          \<lparr>message_technology = ''gas_cc'', reg_diff_source = Some ''weo'',
            reg_diff_technology = Some ''ccgt'',
            base_year_reference_region_cost = Some 1000,
            fix_ratio = Some (1 / 40), region = Some ''R11_WEU'',
            reg_cost_ratio = Some (4 / 5), reg_cost_base_year = Some 800\<rparr>,
          \<lparr>message_technology = ''dri'', reg_diff_source = None,
            reg_diff_technology = None,
            base_year_reference_region_cost = Some 100, fix_ratio = Some 0,
            region = None, reg_cost_ratio = None, reg_cost_base_year = None\<rparr>]"
  by code_simp

section \<open>Properties of the GDP ratios and the regression\<close>

text \<open>The least-squares line through \<open>(1, 1)\<close> and \<open>(g, c)\<close>.\<close>

lemma linregress_two_points:
  assumes "g \<noteq> 1"
  shows "linregress [Some 1, Some g] [Some 1, Some c] =
           Inr (Some ((c - 1) / (g - 1)), Some ((g - c) / (g - 1)))"
proof -
  from assms have g1: "g - 1 \<noteq> 0" by simp
  have den: "(1 - (1 + g) / 2) * (1 - (1 + g) / 2) + (g - (1 + g) / 2) * (g - (1 + g) / 2)
            = (g - 1) * (g - 1) / 2"
    by (simp add: field_simps)
  have num: "(1 - (1 + g) / 2) * (1 - (1 + c) / 2) + (g - (1 + g) / 2) * (c - (1 + c) / 2)
            = (g - 1) * (c - 1) / 2"
    by (simp add: field_simps)
  have ne: "(1 - (1 + g) / 2) * (1 - (1 + g) / 2) + (g - (1 + g) / 2) * (g - (1 + g) / 2) \<noteq> 0"
    unfolding den using g1 by simp
  have s: "((1 - (1 + g) / 2) * (1 - (1 + c) / 2) + (g - (1 + g) / 2) * (c - (1 + c) / 2)) / 2 /
           (((1 - (1 + g) / 2) * (1 - (1 + g) / 2) + (g - (1 + g) / 2) * (g - (1 + g) / 2)) / 2)
           = (c - 1) / (g - 1)"
    unfolding num den using g1 by simp
  have "(1 + c) / 2 - (c - 1) / (g - 1) * ((1 + g) / 2) = ((1 + c) * (g - 1) - (c - 1) * (1 + g)) / (2 * (g - 1))"
    using g1 by (simp add: field_simps)
  also have "\<dots> = (2 * (g - c)) / (2 * (g - 1))"
    by (simp add: algebra_simps)
  also have "\<dots> = (g - c) / (g - 1)"
    by (rule mult_divide_mult_cancel_left) simp
  finally have i: "(1 + c) / 2 - (c - 1) / (g - 1) * ((1 + g) / 2) = (g - c) / (g - 1)" .
  from assms have "\<not> (Some g = Some (1::real))" by simp
  then show ?thesis
    using ne s i by (simp add: linregress_def fsum_def Let_def)
qed

lemma line_through_points:
  assumes "(g::real) \<noteq> 1"
  shows "(g - c) / (g - 1) + (c - 1) / (g - 1) * 1 = 1"
    and "(g - c) / (g - 1) + (c - 1) / (g - 1) * g = c"
proof -
  from assms have g1: "g - 1 \<noteq> 0" by simp
  have "(g - c) / (g - 1) + (c - 1) / (g - 1) * 1 = ((g - c) + (c - 1)) / (g - 1)"
    by (simp only: mult_1_right add_divide_distrib)
  also have "(g - c) + (c - 1) = g - 1" by simp
  also have "(g - 1) / (g - 1) = 1" using g1 by (rule divide_self)
  finally show "(g - c) / (g - 1) + (c - 1) / (g - 1) * 1 = 1" .
  have "(g - c) / (g - 1) + (c - 1) / (g - 1) * g = ((g - c) + (c - 1) * g) / (g - 1)"
    by (simp only: times_divide_eq_left add_divide_distrib)
  also have "(g - c) + (c - 1) * g = c * (g - 1)" by (simp add: algebra_simps)
  also have "c * (g - 1) / (g - 1) = c" using g1 by (rule nonzero_mult_div_cancel_right)
  finally show "(g - c) / (g - 1) + (c - 1) / (g - 1) * g = c" .
qed




text \<open>The base year.\<close>

lemma min_list_Min: "xs \<noteq> [] \<Longrightarrow> min_list xs = Min (set xs)"
  by (induction xs rule: min_list.induct) (auto split: list.splits)

lemma set_unique [simp]: "set (unique xs) = set xs"
  by (simp add: unique_def)

lemma base_year_present:
  "y \<in> gdp_year ` set df_gdp \<Longrightarrow> base_year_of y df_gdp = Inr (y, [])"
  by (simp add: base_year_of_def)

lemma base_year_absent:
  assumes "y \<notin> gdp_year ` set df_gdp" "df_gdp \<noteq> []"
  shows "base_year_of y df_gdp =
     Inr (Min (gdp_year ` set df_gdp), [BaseYearNotFound y (Min (gdp_year ` set df_gdp))])"
proof -
  from assms(2) have "unique (map gdp_year df_gdp) \<noteq> []"
    by (metis set_unique set_empty map_is_Nil_conv)
  from min_list_Min[OF this] have "min_list (unique (map gdp_year df_gdp)) = Min (gdp_year ` set df_gdp)"
    by simp
  with assms \<open>unique (map gdp_year df_gdp) \<noteq> []\<close> show ?thesis
    by (simp add: base_year_of_def Let_def)
qed



text \<open>
  C10: when the node file is read and the SSP rows are aggregated, and the reference
  region (given, or the default of the node list), in upper case, is no region of the
  aggregated table, \<open>process_raw_ssp_data\<close> prints a line with the regions of the table
  and returns \<open>None\<close>: it raises nothing and returns no table.
\<close>

theorem invalid_reference_region_returns_None:
  assumes "node_file pk (upper input_node @ ''.yaml'') = Some nodes_data"
    and "aggregate_ssp (regions_countries_of nodes_data) (ssp_data pk) = Inr df"
    and "default_ref_region input_node input_ref_region = Some r"
    and "upper r \<notin> gdp_region ` set df"
  shows "process_raw_ssp_data pk input_node input_ref_region =
           ((if upper input_node \<in> set [''R11'', ''R12'', ''R20''] then [] else [InvalidRegion]) @
              [InvalidReferenceRegion (unique (map gdp_region df))],
            Inr None)"
  using assms by (simp add: process_raw_ssp_data_def Let_def)

theorem invalid_reference_region_witness:
  "node_file package_example (upper ''R11'' @ ''.yaml'') =
     Some [(''World'', [''R11_NAM'', ''R11_WEU'']), (''R11_NAM'', [''CAN'', ''USA'']),
           (''R11_WEU'', [''FRA''])] \<and>
   aggregate_ssp (regions_countries_of
       [(''World'', [''R11_NAM'', ''R11_WEU'']), (''R11_NAM'', [''CAN'', ''USA'']),
        (''R11_WEU'', [''FRA''])]) (ssp_data package_example) = Inr agg_example \<and>
   default_ref_region ''R11'' (Some ''r11_afr'') = Some ''r11_afr'' \<and>
   upper ''r11_afr'' \<notin> gdp_region ` set agg_example \<and>
   process_raw_ssp_data package_example ''R11'' (Some ''r11_afr'') =
     ([InvalidReferenceRegion [''R11_NAM'', ''R11_WEU'']], Inr None)"
proof -
  have n: "node_file package_example (upper ''R11'' @ ''.yaml'') =
     Some [(''World'', [''R11_NAM'', ''R11_WEU'']), (''R11_NAM'', [''CAN'', ''USA'']),
           (''R11_WEU'', [''FRA''])]"
    by code_simp
  have a: "aggregate_ssp (regions_countries_of
       [(''World'', [''R11_NAM'', ''R11_WEU'']), (''R11_NAM'', [''CAN'', ''USA'']),
        (''R11_WEU'', [''FRA''])]) (ssp_data package_example) = Inr agg_example"
    by code_simp
  have d: "default_ref_region ''R11'' (Some ''r11_afr'') = Some ''r11_afr''"
    by (simp add: default_ref_region_def)
  have u: "upper ''r11_afr'' = ''R11_AFR''" "upper ''R11'' = ''R11''"
    by code_simp+
  have r: "upper ''r11_afr'' \<notin> gdp_region ` set agg_example"
    unfolding u by (simp add: agg_example_def)
  have q: "unique (map gdp_region agg_example) = [''R11_NAM'', ''R11_WEU'']"
    by code_simp
  from invalid_reference_region_returns_None[OF n a d r] n a d r show ?thesis
    by (simp add: u q)
qed

text \<open>
  C6: a node list that is none of R11, R12 and R20 does not stop
  \<open>process_raw_ssp_data\<close>. With the node list R14, which has a node file, it prints its
  line and returns the table of GDP ratios.
\<close>

theorem invalid_region_returns_table:
  "upper ''R14'' \<notin> set [''R11'', ''R12'', ''R20''] \<and>
   process_raw_ssp_data package_example ''R14'' (Some ''R14_NAM'') =
     ([InvalidRegion],
      Inr (Some
        [\<lparr>scenario_version = ''SSP2 - Review Phase 1'', scenario = ''LED'',
            gdp_region = ''R14_NAM'', gdp_year = 2020,
            gdp_ppp_per_capita = Some 60, gdp_ratio_reg_to_reference = Some 1\<rparr>,
         \<lparr>scenario_version = ''SSP2 - Review Phase 1'', scenario = ''LED'',
            gdp_region = ''R14_WEU'', gdp_year = 2020,
            gdp_ppp_per_capita = Some 45, gdp_ratio_reg_to_reference = Some (3 / 4)\<rparr>,
         \<lparr>scenario_version = ''SSP2 - Review Phase 1'', scenario = ''SSP2'',
            gdp_region = ''R14_NAM'', gdp_year = 2020,
            gdp_ppp_per_capita = Some 60, gdp_ratio_reg_to_reference = Some 1\<rparr>,
         \<lparr>scenario_version = ''SSP2 - Review Phase 1'', scenario = ''SSP2'',
            gdp_region = ''R14_WEU'', gdp_year = 2020,
            gdp_ppp_per_capita = Some 45, gdp_ratio_reg_to_reference = Some (3 / 4)\<rparr>]))"
  by code_simp

text \<open>
  C6, as the code has it: what \<open>process_raw_ssp_data\<close> prints begins with the line
  \<^verbatim>\<open>Please select a valid region: R11, R12, or R20\<close> exactly when the node list, in upper
  case, is none of the three, and the line is printed once.
\<close>

theorem invalid_region_is_reported:
  "\<exists>rest. fst (process_raw_ssp_data pk input_node input_ref_region) =
           (if upper input_node \<in> set [''R11'', ''R12'', ''R20''] then [] else [InvalidRegion]) @ rest \<and>
         InvalidRegion \<notin> set rest"
proof -
  let ?out = "if upper input_node \<in> set [''R11'', ''R12'', ''R20''] then [] else [InvalidRegion]"
  have "fst (process_raw_ssp_data pk input_node input_ref_region) = ?out @ [] \<or>
        (\<exists>gs. fst (process_raw_ssp_data pk input_node input_ref_region) =
           ?out @ [InvalidReferenceRegion gs])"
  proof (cases "node_file pk (upper input_node @ ''.yaml'')")
    case None
    then show ?thesis by (simp add: process_raw_ssp_data_def Let_def)
  next
    case (Some nodes_data)
    show ?thesis
    proof (cases "aggregate_ssp (regions_countries_of nodes_data) (ssp_data pk)")
      case (Inl e)
      with Some show ?thesis by (simp add: process_raw_ssp_data_def Let_def)
    next
      case (Inr df)
      show ?thesis
      proof (cases "default_ref_region input_node input_ref_region")
        case None
        with Some Inr show ?thesis by (simp add: process_raw_ssp_data_def Let_def)
      next
        case (Some r)
        with \<open>node_file pk (upper input_node @ ''.yaml'') = Some nodes_data\<close> Inr
        show ?thesis by (simp add: process_raw_ssp_data_def Let_def)
      qed
    qed
  qed
  then show ?thesis
  proof
    assume "fst (process_raw_ssp_data pk input_node input_ref_region) = ?out @ []"
    then show ?thesis by (intro exI[of _ "[]"]) simp
  next
    assume "\<exists>gs. fst (process_raw_ssp_data pk input_node input_ref_region) =
           ?out @ [InvalidReferenceRegion gs]"
    then obtain gs where "fst (process_raw_ssp_data pk input_node input_ref_region) =
           ?out @ [InvalidReferenceRegion gs]" ..
    then show ?thesis by (intro exI[of _ "[InvalidReferenceRegion gs]"]) simp
  qed
qed

section \<open>Properties of the projection of the investment costs\<close>

lemma in_merge_innerD:
  "(x, y) \<in> set (merge_inner ka kb xs ys) \<Longrightarrow> x \<in> set xs \<and> y \<in> set ys \<and> kb y = ka x"
  by (auto simp: merge_inner_def)

lemma in_project:
  assumes "x \<in> set (project_adjusted_inv_costs nam adj reg conv)"
  shows "\<exists>n \<in> set nam. p_scenario x = nl_scenario n \<and>
           p_message_technology x = nl_message_technology n \<and> p_year x = nl_year n \<and>
           (FIRST_MODEL_YEAR < nl_year n \<and> conv \<le> nl_year n \<longrightarrow>
              inv_cost_converge x = inv_cost_learning_NAM n)"
proof -
  from assms obtain n a r where nar: "((n, a), r) \<in> set (merge_inner
          (\<lambda>(n, a). (nl_message_technology n, nl_weo_technology n, ac_region a))
          (\<lambda>r. (rd_message_technology r, rd_weo_technology r, rd_region r))
          (merge_inner (\<lambda>n. (nl_scenario n, nl_weo_technology n, nl_year n))
             (\<lambda>a. (ac_scenario a, ac_weo_technology a, ac_year a))
             nam adj)
          (filter (\<lambda>r. rd_cost_type r = ''inv_cost'') reg))"
    and x: "p_scenario x = nl_scenario n" "p_message_technology x = nl_message_technology n"
      "p_year x = nl_year n"
      "inv_cost_converge x = (if nl_year n \<le> FIRST_MODEL_YEAR then cost_region_2021 r
                else if nl_year n < conv
                then fmul (inv_cost_learning_NAM n) (rd_cost_ratio r)
                else inv_cost_learning_NAM n)"
    unfolding project_adjusted_inv_costs_def by auto
  from in_merge_innerD[OF nar] have "(n, a) \<in> set (merge_inner (\<lambda>n. (nl_scenario n, nl_weo_technology n, nl_year n))
             (\<lambda>a. (ac_scenario a, ac_weo_technology a, ac_year a))
             nam adj)" by simp
  from in_merge_innerD[OF this] have "n \<in> set nam" by simp
  with x show ?thesis by auto
qed

text \<open>
  C3: the claim as it is stated fails for a convergence year that is not after the first
  model year. With the convergence year 2020 the rows of 2020 are rows of a year from the
  convergence year on, and they carry the regional cost of the base year: 1000 in
  \<open>R11_NAM\<close> and 800 in \<open>R11_WEU\<close> for the same scenario and technology.
\<close>

theorem converged_cost_differs_in_first_model_year:
  "project_adjusted_inv_costs nam_example adj_example reg_example 2020 = proj_example \<and>
   p_scenario (proj_example ! 0) = p_scenario (proj_example ! 1) \<and>
   p_message_technology (proj_example ! 0) = p_message_technology (proj_example ! 1) \<and>
   p_year (proj_example ! 0) = 2020 \<and> p_year (proj_example ! 1) = 2020 \<and>
   p_region (proj_example ! 0) = ''R11_NAM'' \<and> p_region (proj_example ! 1) = ''R11_WEU'' \<and>
   inv_cost_converge (proj_example ! 0) = Some 1000 \<and>
   inv_cost_converge (proj_example ! 1) = Some 800"
proof -
  have "project_adjusted_inv_costs nam_example adj_example reg_example 2020 = proj_example"
    by code_simp
  then show ?thesis by (simp add: proj_example_def)
qed

text \<open>
  C3, as the code has it: two rows of the table of \<open>project_adjusted_inv_costs\<close> for the
  same scenario, technology and year, the year being after the first model year (2020) and
  not before the convergence year, have the same \<open>inv_cost_converge\<close>, whatever their
  regions: it is the value of the learning curve for that scenario, technology and year.
  The learning curve has one value for a scenario, technology and year.
\<close>

theorem converged_cost_same_across_regions:
  assumes one: "\<forall>n\<in>set nam_learning_df. \<forall>n'\<in>set nam_learning_df.
        nl_scenario n = nl_scenario n' \<and> nl_message_technology n = nl_message_technology n' \<and>
        nl_year n = nl_year n' \<longrightarrow> inv_cost_learning_NAM n = inv_cost_learning_NAM n'"
    and x: "x \<in> set (project_adjusted_inv_costs nam_learning_df adj_cost_ratios_df reg_diff_df
                convergence_year_flag)"
    and y: "y \<in> set (project_adjusted_inv_costs nam_learning_df adj_cost_ratios_df reg_diff_df
                convergence_year_flag)"
    and same: "p_scenario x = p_scenario y" "p_message_technology x = p_message_technology y"
      "p_year x = p_year y"
    and year: "convergence_year_flag \<le> p_year x" "FIRST_MODEL_YEAR < p_year x"
  shows "inv_cost_converge x = inv_cost_converge y \<and>
         (\<exists>n\<in>set nam_learning_df. nl_scenario n = p_scenario x \<and>
            nl_message_technology n = p_message_technology x \<and> nl_year n = p_year x \<and>
            inv_cost_converge x = inv_cost_learning_NAM n)"
proof -
  from in_project[OF x] year obtain n where n: "n \<in> set nam_learning_df"
    "p_scenario x = nl_scenario n" "p_message_technology x = nl_message_technology n"
    "p_year x = nl_year n" "inv_cost_converge x = inv_cost_learning_NAM n"
    by auto
  from in_project[OF y] year same obtain n' where n': "n' \<in> set nam_learning_df"
    "p_scenario y = nl_scenario n'" "p_message_technology y = nl_message_technology n'"
    "p_year y = nl_year n'" "inv_cost_converge y = inv_cost_learning_NAM n'"
    by auto
  from one n(1) n'(1) n(2-4) n'(2-4) same
  have "inv_cost_learning_NAM n = inv_cost_learning_NAM n'" by metis
  with n n' show ?thesis by auto
qed

theorem converged_cost_witness:
  "project_adjusted_inv_costs nam_example adj_example reg_example 2050 = proj_example \<and>
   proj_example ! 2 \<in> set proj_example \<and> proj_example ! 3 \<in> set proj_example \<and>
   p_scenario (proj_example ! 2) = p_scenario (proj_example ! 3) \<and>
   p_message_technology (proj_example ! 2) = p_message_technology (proj_example ! 3) \<and>
   p_year (proj_example ! 2) = p_year (proj_example ! 3) \<and>
   2050 \<le> p_year (proj_example ! 2) \<and> FIRST_MODEL_YEAR < p_year (proj_example ! 2) \<and>
   p_region (proj_example ! 2) = ''R11_NAM'' \<and> p_region (proj_example ! 3) = ''R11_WEU'' \<and>
   inv_cost_converge (proj_example ! 2) = inv_cost_converge (proj_example ! 3) \<and>
   inv_cost_converge (proj_example ! 2) = Some 900"
proof -
  have p: "project_adjusted_inv_costs nam_example adj_example reg_example 2050 = proj_example"
    by code_simp
  have one: "\<forall>n\<in>set nam_example. \<forall>n'\<in>set nam_example.
        nl_scenario n = nl_scenario n' \<and> nl_message_technology n = nl_message_technology n' \<and>
        nl_year n = nl_year n' \<longrightarrow> inv_cost_learning_NAM n = inv_cost_learning_NAM n'"
    by (simp add: nam_example_def)
  have x: "proj_example ! 2 \<in> set (project_adjusted_inv_costs nam_example adj_example
      reg_example 2050)"
    and y: "proj_example ! 3 \<in> set (project_adjusted_inv_costs nam_example adj_example
      reg_example 2050)"
    unfolding p by (simp_all add: proj_example_def)
  have same: "p_scenario (proj_example ! 2) = p_scenario (proj_example ! 3)"
    "p_message_technology (proj_example ! 2) = p_message_technology (proj_example ! 3)"
    "p_year (proj_example ! 2) = p_year (proj_example ! 3)"
    and year: "2050 \<le> p_year (proj_example ! 2)" "FIRST_MODEL_YEAR < p_year (proj_example ! 2)"
    and reg: "p_region (proj_example ! 2) = ''R11_NAM''" "p_region (proj_example ! 3) = ''R11_WEU''"
      "inv_cost_converge (proj_example ! 2) = Some 900"
    by (simp_all add: proj_example_def FIRST_MODEL_YEAR_def)
  from converged_cost_same_across_regions[OF one x y same year]
  have "inv_cost_converge (proj_example ! 2) = inv_cost_converge (proj_example ! 3)" by simp
  with p x y same year reg show ?thesis by simp
qed

section \<open>Properties of the callback for files of scenario URLs\<close>

text \<open>Decimal numerals are read back as the number they were written from.\<close>

lemma digits_table: "list_all (\<lambda>d. digit_value (digit_char d) = Some d \<and> digit_char d \<noteq> newline) [0 ..< 10]"
  by code_simp

lemma digit_value_digit_char: "d < 10 \<Longrightarrow> digit_value (digit_char d) = Some d"
  using digits_table by (simp add: list_all_iff)

lemma digit_char_not_newline: "d < 10 \<Longrightarrow> digit_char d \<noteq> newline"
  using digits_table by (simp add: list_all_iff)

lemma nat_of_digits_snoc:
  "nat_of_digits acc (xs @ [c]) =
     (case nat_of_digits acc xs of
        None \<Rightarrow> None
      | Some a \<Rightarrow> (case digit_value c of None \<Rightarrow> None | Some d \<Rightarrow> Some (10 * a + d)))"
  by (induction xs arbitrary: acc) (simp_all split: option.splits)

lemma nat_of_digits_string_of_nat: "nat_of_digits 0 (string_of_nat n) = Some n"
proof (induction n rule: string_of_nat.induct)
  case (1 n)
  show ?case
  proof (cases "n < 10")
    case True
    then show ?thesis
      by (subst string_of_nat.simps) (simp add: digit_value_digit_char)
  next
    case False
    with 1 have "nat_of_digits 0 (string_of_nat (n div 10)) = Some (n div 10)" by simp
    with False show ?thesis
      by (subst string_of_nat.simps) (simp add: nat_of_digits_snoc digit_value_digit_char)
  qed
qed

lemma newline_not_digit: "newline \<notin> set (string_of_nat n)"
proof (induction n rule: string_of_nat.induct)
  case (1 n)
  show ?case
  proof (cases "n < 10")
    case True
    then show ?thesis
      by (subst string_of_nat.simps) (simp add: digit_char_not_newline[symmetric] digit_char_not_newline)
  next
    case False
    with 1 have "newline \<notin> set (string_of_nat (n div 10))" by simp
    moreover have "digit_char (n mod 10) \<noteq> newline" by (rule digit_char_not_newline) simp
    ultimately show ?thesis using False
      by (subst string_of_nat.simps) auto
  qed
qed

lemma string_of_nat_not_Nil: "string_of_nat n \<noteq> []"
  by (subst string_of_nat.simps) simp

lemma nat_of_string_string_of_nat: "nat_of_string (string_of_nat n) = Some n"
  by (simp add: nat_of_string_def string_of_nat_not_Nil nat_of_digits_string_of_nat)

lemma file_lines_line:
  "newline \<notin> set l \<Longrightarrow> file_lines (l @ newline # rest) = (l @ [newline]) # file_lines rest"
  by (induction l) auto


lemma strip_newline_line: "strip_newline (b @ [newline]) = b"
  by (simp add: strip_newline_def)

lemma from_url_url_line:
  assumes "well_formed_id (m, s, v)"
  shows "from_url (url_line (m, s, v)) = Inr \<lparr>si_model = m, si_scenario = s, si_version = Some v\<rparr>"
proof -
  from assms have m: "m \<noteq> []" "\<And>c. c \<in> set m \<Longrightarrow> c \<noteq> CHR ''/''"
    and sc: "s \<noteq> []" "\<And>c. c \<in> set s \<Longrightarrow> c \<noteq> CHR ''#''"
    by (auto simp: well_formed_id_def)
  let ?u = "m @ CHR ''/'' # s @ CHR ''#'' # string_of_nat v"
  have u: "strip_newline (url_line (m, s, v)) = ?u"
    using strip_newline_line[of ?u] by (simp add: url_line_def)
  have tm: "takeWhile (\<lambda>c. c \<noteq> CHR ''/'') ?u = m"
    using m(2) by (simp add: takeWhile_tail)
  have dm: "dropWhile (\<lambda>c. c \<noteq> CHR ''/'') ?u = CHR ''/'' # s @ CHR ''#'' # string_of_nat v"
    using m(2) by (simp add: dropWhile_append3)
  have ts: "takeWhile (\<lambda>c. c \<noteq> CHR ''#'') (s @ CHR ''#'' # string_of_nat v) = s"
    using sc(2) by (simp add: takeWhile_tail)
  have ds: "dropWhile (\<lambda>c. c \<noteq> CHR ''#'') (s @ CHR ''#'' # string_of_nat v) =
      CHR ''#'' # string_of_nat v"
    using sc(2) by (simp add: dropWhile_append3)
  show ?thesis
    unfolding from_url_def u
    by (simp add: Let_def tm dm ts ds m(1) sc(1) nat_of_string_string_of_nat)
qed

lemma url_of_id:
  "url \<lparr>si_model = m, si_scenario = s, si_version = Some v\<rparr> @ [newline] = url_line (m, s, v)"
  by (simp add: url_def url_line_def)

lemma line_has_one_newline:
  assumes "well_formed_id (m, s, v)"
  shows "\<exists>b. url_line (m, s, v) = b @ [newline] \<and> newline \<notin> set b"
proof -
  have "CHR ''/'' \<noteq> newline" "CHR ''#'' \<noteq> newline" by (simp_all add: newline_def)
  with assms newline_not_digit[of v]
  have "newline \<notin> set (m @ CHR ''/'' # s @ CHR ''#'' # string_of_nat v)"
    by (auto simp: well_formed_id_def)
  moreover have "url_line (m, s, v) = (m @ CHR ''/'' # s @ CHR ''#'' # string_of_nat v) @ [newline]"
    by (simp add: url_line_def)
  ultimately show ?thesis by blast
qed

lemma file_lines_url_lines:
  "list_all well_formed_id ids \<Longrightarrow> file_lines (concat (map url_line ids)) = map url_line ids"
proof (induction ids)
  case Nil
  then show ?case by simp
next
  case (Cons i ids)
  obtain m s v where i: "i = (m, s, v)" by (cases i) auto
  with Cons.prems have "well_formed_id (m, s, v)" by simp
  from line_has_one_newline[OF this] obtain b where
    b: "url_line (m, s, v) = b @ [newline]" "newline \<notin> set b" by blast
  from Cons have "file_lines (concat (map url_line ids)) = map url_line ids" by simp
  with b i show ?case by (simp add: file_lines_line)
qed

lemma collect_map_Inr:
  "(\<And>x. x \<in> set xs \<Longrightarrow> f x = Inr (g x)) \<Longrightarrow> collect (map f xs) = Inr (map g xs)"
  by (induction xs) auto

lemma from_url_lines:
  assumes "list_all well_formed_id ids"
  shows "collect (map from_url (map url_line ids)) = Inr (map info_of ids)"
proof -
  have "from_url (url_line i) = Inr (info_of i)" if "i \<in> set ids" for i
  proof -
    obtain m s v where i: "i = (m, s, v)" by (cases i) auto
    with that assms have "well_formed_id (m, s, v)" by (auto simp: list_all_iff)
    from from_url_url_line[OF this] i show ?thesis by (simp add: info_of_def)
  qed
  then show ?thesis
    unfolding map_map by (intro collect_map_Inr) simp
qed

lemma serialize_infos: "serialize (map info_of ids) = concat (map url_line ids)"
proof -
  have "url (info_of i) @ [newline] = url_line i" for i
    by (cases i) (simp add: info_of_def url_of_id)
  then show ?thesis by (simp add: serialize_def comp_def)
qed



end
